theory Spec2Isabelle
  imports Main "HOL-Library.Sublist" "HOL-Library.List_Lexorder"
begin

section \<open>JavaScript strings\<close>

text \<open>
  A JavaScript string is a sequence of UTF-16 code units and \<open>length\<close>, \<open>slice\<close> and
  \<open>indexOf\<close> count code units. A code unit is modelled by its number, a string by the
  list of its code units; \<open>js\<close> embeds an ASCII literal.
\<close>

type_synonym jschar = nat
type_synonym jsstring = "jschar list"

definition js :: "string \<Rightarrow> jsstring" where
  "js s = map of_char s"

text \<open>The class \<open>\s\<close> of regular expressions, which is also what \<open>trim\<close> strips.\<close>

definition isWhiteSpace :: "jschar \<Rightarrow> bool" where
  "isWhiteSpace c =
     (c \<in> set [9, 10, 11, 12, 13, 32, 160, 5760, 8232, 8233, 8239, 8287, 12288, 65279]
      \<or> (8192 \<le> c \<and> c \<le> 8202))"

text \<open>The class \<open>\d\<close>, and the word characters that decide \<open>\b\<close>.\<close>

definition isDigit :: "jschar \<Rightarrow> bool" where
  "isDigit c = (48 \<le> c \<and> c \<le> 57)"

definition isWordChar :: "jschar \<Rightarrow> bool" where
  "isWordChar c = (isDigit c \<or> (65 \<le> c \<and> c \<le> 90) \<or> (97 \<le> c \<and> c \<le> 122) \<or> c = 95)"

text \<open>
  \<open>toLowerCase\<close>, code unit by code unit: the letters of ASCII and of Latin-1 are
  lowered, every other code unit is kept. (The cased letters beyond Latin-1 are outside
  this model.)
\<close>

definition lowerUnit :: "jschar \<Rightarrow> jschar" where
  "lowerUnit c =
     (if (65 \<le> c \<and> c \<le> 90) \<or> (192 \<le> c \<and> c \<le> 222 \<and> c \<noteq> 215) then c + 32 else c)"

definition toLowerCase :: "jsstring \<Rightarrow> jsstring" where
  "toLowerCase s = map lowerUnit s"

definition trim :: "jsstring \<Rightarrow> jsstring" where
  "trim s = rev (dropWhile isWhiteSpace (rev (dropWhile isWhiteSpace s)))"

definition startsWith :: "jsstring \<Rightarrow> jsstring \<Rightarrow> bool" where
  "startsWith s p = (take (length p) s = p)"

definition endsWith :: "jsstring \<Rightarrow> jsstring \<Rightarrow> bool" where
  "endsWith s p = (length p \<le> length s \<and> drop (length s - length p) s = p)"

text \<open>\<open>h.indexOf(w)\<close>: the first index at which \<open>w\<close> occurs in \<open>h\<close>, or \<open>-1\<close>.\<close>

fun indexOf :: "jsstring \<Rightarrow> jsstring \<Rightarrow> int" where
  "indexOf [] w = (if w = [] then 0 else - 1)"
| "indexOf (c # cs) w =
     (if startsWith (c # cs) w then 0
      else (let r = indexOf cs w in if r < 0 then - 1 else r + 1))"

text \<open>
  \<open>xs.slice(0, end)\<close>: a negative \<open>end\<close> counts from the end of the list.
  \<open>xs.slice(-n)\<close> keeps the last \<open>n\<close> elements.
\<close>

definition slice0 :: "'a list \<Rightarrow> int \<Rightarrow> 'a list" where
  "slice0 xs e = (if e < 0 then take (nat (int (length xs) + e)) xs else take (nat e) xs)"

definition sliceLast :: "'a list \<Rightarrow> nat \<Rightarrow> 'a list" where
  "sliceLast xs n = drop (length xs - n) xs"

text \<open>\<open>s.replace(/\s+/g, " ")\<close>: every maximal run of white space becomes one space.\<close>

function collapseWs :: "jsstring \<Rightarrow> jsstring" where
  "collapseWs [] = []"
| "collapseWs (c # cs) =
     (if isWhiteSpace c then 32 # collapseWs (dropWhile isWhiteSpace cs)
      else c # collapseWs cs)"
  by pat_completeness auto
termination
  by (relation "measure length") (auto simp: length_dropWhile_le less_Suc_eq_le)

text \<open>
  \<open>s.split(/[,\s]+/)\<close>: the pieces between the maximal runs of commas and white space;
  a separator at either end of the string leaves an empty piece there. The first argument is
  the piece being read.
\<close>

definition isSep :: "jschar \<Rightarrow> bool" where
  "isSep c = (c = 44 \<or> isWhiteSpace c)"

function splitSep :: "jsstring \<Rightarrow> jsstring \<Rightarrow> jsstring list" where
  "splitSep cur [] = [cur]"
| "splitSep cur (c # cs) =
     (if isSep c then cur # splitSep [] (dropWhile isSep cs)
      else splitSep (cur @ [c]) cs)"
  by pat_completeness auto
termination
  by (relation "measure (\<lambda>(cur, s). length s)") (auto simp: length_dropWhile_le less_Suc_eq_le)

section \<open>Keyword matching and previews (server.js, lines 414-430)\<close>

text \<open>
  The truncation mark of \<open>clip\<close> and \<open>makePreview\<close>: the string literal of the source file,
  which holds the three code units U+201A, U+00C4, U+00B6.
\<close>

definition ELLIPSIS :: jsstring where
  "ELLIPSIS = [8218, 196, 182]"

definition makePreview :: "jsstring \<Rightarrow> int \<Rightarrow> jsstring" where
  "makePreview text maxLen =
     (let t = trim (collapseWs text)
      in if int (length t) > maxLen then slice0 t (maxLen - 1) @ ELLIPSIS else t)"

definition norm :: "jsstring \<Rightarrow> jsstring" where
  "norm s = toLowerCase s"

definition anyKeywordHit :: "jsstring \<Rightarrow> jsstring list \<Rightarrow> bool" where
  "anyKeywordHit haystack kwsLower =
     (if kwsLower = [] then True
      else (let h = norm haystack in list_ex (\<lambda>w. indexOf h w \<ge> 0) kwsLower))"

definition hasAllowedTranscriptExt :: "jsstring \<Rightarrow> bool" where
  "hasAllowedTranscriptExt name =
     (let n = toLowerCase name
      in endsWith n (js ''.txt'') \<or> endsWith n (js ''.vtt'') \<or> endsWith n (js ''.srt''))"

text \<open>
  The keyword list of a search: the \<open>keywords\<close> parameter split, each piece trimmed, the
  empty pieces dropped, the rest lower-cased. An absent parameter is the empty string.
\<close>

definition parseKeywords :: "jsstring \<Rightarrow> jsstring list" where
  "parseKeywords keywords =
     map toLowerCase (filter (\<lambda>s. s \<noteq> []) (map trim (splitSep [] keywords)))"

section \<open>Dates\<close>

text \<open>
  Time values are integers, the milliseconds since 1970-01-01T00:00Z. \<open>MakeDay\<close>,
  \<open>MakeTime\<close> and \<open>Date.UTC\<close> follow ECMA-262: a month outside \<open>0..11\<close> and a day outside
  the month carry over, and a year from 0 to 99 means 1900 + year. The fields this program
  passes have at most four digits, which keeps every result far inside the range of time
  values, so \<open>TimeClip\<close> is the identity and is left out.
\<close>

definition isLeapYear :: "int \<Rightarrow> bool" where
  "isLeapYear y = (y mod 4 = 0 \<and> (y mod 400 = 0 \<or> y mod 100 \<noteq> 0))"

definition dayFromYear :: "int \<Rightarrow> int" where
  "dayFromYear y = 365 * (y - 1970) + (y - 1969) div 4 - (y - 1901) div 100 + (y - 1601) div 400"

definition monthStart :: "int \<Rightarrow> int \<Rightarrow> int" where
  "monthStart y mn =
     [0, 31, 59, 90, 120, 151, 181, 212, 243, 273, 304, 334] ! nat mn
       + (if isLeapYear y \<and> 2 \<le> mn then 1 else 0)"

definition MakeDay :: "int \<Rightarrow> int \<Rightarrow> int \<Rightarrow> int" where
  "MakeDay year month date =
     (let ym = year + month div 12; mn = month mod 12
      in dayFromYear ym + monthStart ym mn + date - 1)"

definition MakeTime :: "int \<Rightarrow> int \<Rightarrow> int \<Rightarrow> int \<Rightarrow> int" where
  "MakeTime h m s ms = h * 3600000 + m * 60000 + s * 1000 + ms"

definition msPerDay :: int where
  "msPerDay = 86400000"

definition Date_UTC :: "int \<Rightarrow> int \<Rightarrow> int \<Rightarrow> int \<Rightarrow> int \<Rightarrow> int \<Rightarrow> int" where
  "Date_UTC year month date hours minutes seconds =
     (let yr = (if 0 \<le> year \<and> year \<le> 99 then 1900 + year else year)
      in MakeDay yr month date * msPerDay + MakeTime hours minutes seconds 0)"

text \<open>The year, month (1 to 12) and day of the month of a day number.\<close>

definition civilFromDays :: "int \<Rightarrow> int \<times> int \<times> int" where
  "civilFromDays day =
     (let z = day + 719468;
          era = z div 146097;
          doe = z mod 146097;
          yoe = (doe - doe div 1460 + doe div 36524 - doe div 146096) div 365;
          doy = doe - (365 * yoe + yoe div 4 - yoe div 100);
          mp = (5 * doy + 2) div 153;
          d = doy - (153 * mp + 2) div 5 + 1;
          m = (if mp < 10 then mp + 3 else mp - 9);
          y = yoe + era * 400 + (if m \<le> 2 then 1 else 0)
      in (y, m, d))"

text \<open>Decimal digits with leading zeros, in a field of two, three, four or six.\<close>

definition pad2 :: "nat \<Rightarrow> jsstring" where
  "pad2 n = [48 + n div 10 mod 10, 48 + n mod 10]"

definition pad3 :: "nat \<Rightarrow> jsstring" where
  "pad3 n = (48 + n div 100 mod 10) # pad2 n"

definition pad4 :: "nat \<Rightarrow> jsstring" where
  "pad4 n = (48 + n div 1000 mod 10) # pad3 n"

definition pad6 :: "nat \<Rightarrow> jsstring" where
  "pad6 n = (48 + n div 100000 mod 10) # (48 + n div 10000 mod 10) # pad4 n"

definition digitsValue :: "jsstring \<Rightarrow> int" where
  "digitsValue ds = foldl (\<lambda>a c. 10 * a + (int c - 48)) 0 ds"

text \<open>
  \<open>toISOString\<close>: \<open>YYYY-MM-DDTHH:mm:ss.sssZ\<close>, the year with a sign and six digits when
  it is not in \<open>0..9999\<close>.
\<close>

definition toISOString :: "int \<Rightarrow> jsstring" where
  "toISOString t =
     (let (y, m, d) = civilFromDays (t div msPerDay);
          r = nat (t mod msPerDay);
          yy = (if 0 \<le> y \<and> y \<le> 9999 then pad4 (nat y)
                else (if y < 0 then js ''-'' else js ''+'') @ pad6 (nat (abs y)))
      in yy @ js ''-'' @ pad2 (nat m) @ js ''-'' @ pad2 (nat d) @ js ''T''
           @ pad2 (r div 3600000) @ js '':'' @ pad2 (r div 60000 mod 60) @ js '':''
           @ pad2 (r div 1000 mod 60) @ js ''.'' @ pad3 (r mod 1000) @ js ''Z'')"

text \<open>
  \<open>Date.parse\<close>, on the format \<open>toISOString\<close> writes (which is also the format of the
  modification times the drive reports); \<open>None\<close> is \<open>NaN\<close>. What an engine makes of any
  other string is its own choice and is \<open>NaN\<close> here.
\<close>

definition allDigits :: "jsstring \<Rightarrow> bool" where
  "allDigits ds = list_all isDigit ds"

definition parseIsoTail :: "int \<Rightarrow> jsstring \<Rightarrow> int option" where
  "parseIsoTail y s =
     (if length s = 20 \<and> s ! 0 = 45 \<and> allDigits (take 2 (drop 1 s)) \<and> s ! 3 = 45
         \<and> allDigits (take 2 (drop 4 s)) \<and> s ! 6 = 84 \<and> allDigits (take 2 (drop 7 s))
         \<and> s ! 9 = 58 \<and> allDigits (take 2 (drop 10 s)) \<and> s ! 12 = 58
         \<and> allDigits (take 2 (drop 13 s)) \<and> s ! 15 = 46 \<and> allDigits (take 3 (drop 16 s))
         \<and> s ! 19 = 90
      then (let mo = digitsValue (take 2 (drop 1 s)); d = digitsValue (take 2 (drop 4 s));
                h = digitsValue (take 2 (drop 7 s)); mi = digitsValue (take 2 (drop 10 s));
                se = digitsValue (take 2 (drop 13 s)); ms = digitsValue (take 3 (drop 16 s))
            in if 1 \<le> mo \<and> mo \<le> 12 \<and> 1 \<le> d \<and> MakeDay y (mo - 1) d < MakeDay y mo 1
                  \<and> h \<le> 23 \<and> mi \<le> 59 \<and> se \<le> 59
               then Some (MakeDay y (mo - 1) d * msPerDay + MakeTime h mi se ms) else None)
      else None)"

definition Date_parse :: "jsstring \<Rightarrow> int option" where
  "Date_parse s =
     (if 4 \<le> length s \<and> allDigits (take 4 s) then parseIsoTail (digitsValue (take 4 s)) (drop 4 s)
      else if 7 \<le> length s \<and> (s ! 0 = 43 \<or> s ! 0 = 45) \<and> allDigits (take 6 (drop 1 s))
      then parseIsoTail ((if s ! 0 = 45 then - 1 else 1) * digitsValue (take 6 (drop 1 s))) (drop 7 s)
      else None)"

section \<open>Parsing dates and file names (server.js, lines 183-204 and 403-412)\<close>

text \<open>
  \<open>parseDateInput\<close> returns an ISO string or \<open>null\<close>. The two regular expressions are
  anchored at both ends, so each fixes the length of the trimmed input.
\<close>

definition parseDateInput :: "jsstring \<Rightarrow> bool \<Rightarrow> jsstring option" where
  "parseDateInput s0 isEndExclusive =
     (let s = trim s0
      in if s = [] then None
         else if length s = 10 \<and> allDigits (take 2 s) \<and> s ! 2 = 47 \<and> allDigits (take 2 (drop 3 s))
                 \<and> s ! 5 = 47 \<and> allDigits (drop 6 s)
         then (let y = digitsValue (drop 6 s); mo = digitsValue (take 2 s) - 1;
                   d = digitsValue (take 2 (drop 3 s))
               in Some (toISOString (Date_UTC y mo (d + (if isEndExclusive then 1 else 0)) 0 0 0)))
         else if length s = 10 \<and> allDigits (take 4 s) \<and> s ! 4 = 45 \<and> allDigits (take 2 (drop 5 s))
                 \<and> s ! 7 = 45 \<and> allDigits (drop 8 s)
         then (let y2 = digitsValue (take 4 s); mo2 = digitsValue (take 2 (drop 5 s)) - 1;
                   d2 = digitsValue (drop 8 s)
               in Some (toISOString (Date_UTC y2 mo2 (d2 + (if isEndExclusive then 1 else 0)) 0 0 0)))
         else None)"

text \<open>\<open>fromIso ? Date.parse(fromIso) : null\<close>; \<open>None\<close> stands for \<open>null\<close> and for \<open>NaN\<close>.\<close>

definition boundMs :: "jsstring option \<Rightarrow> int option" where
  "boundMs isoStr = (case isoStr of None \<Rightarrow> None | Some s \<Rightarrow> if s = [] then None else Date_parse s)"

text \<open>
  \<open>NAME_TIME_REGEX\<close>, anchored at the start of the name: four digits, \<open>-\<close> or \<open>/\<close>, two
  digits, \<open>-\<close> or \<open>/\<close>, two digits, a space, \<open>_\<close> or \<open>T\<close>, two digits, \<open>.\<close> or \<open>:\<close>, two
  digits, \<open>.\<close> or \<open>:\<close>, two digits, and a word boundary. The result is the six groups.
\<close>

definition nameTimeMatch :: "jsstring \<Rightarrow> (int \<times> int \<times> int \<times> int \<times> int \<times> int) option" where
  "nameTimeMatch name =
     (if 19 \<le> length name \<and> allDigits (take 4 name) \<and> name ! 4 \<in> {45, 47}
         \<and> allDigits (take 2 (drop 5 name)) \<and> name ! 7 \<in> {45, 47}
         \<and> allDigits (take 2 (drop 8 name)) \<and> name ! 10 \<in> {32, 95, 84}
         \<and> allDigits (take 2 (drop 11 name)) \<and> name ! 13 \<in> {46, 58}
         \<and> allDigits (take 2 (drop 14 name)) \<and> name ! 16 \<in> {46, 58}
         \<and> allDigits (take 2 (drop 17 name))
         \<and> (length name = 19 \<or> \<not> isWordChar (name ! 19))
      then Some (digitsValue (take 4 name), digitsValue (take 2 (drop 5 name)),
                 digitsValue (take 2 (drop 8 name)), digitsValue (take 2 (drop 11 name)),
                 digitsValue (take 2 (drop 14 name)), digitsValue (take 2 (drop 17 name)))
      else None)"

definition parseNameTimestampMs :: "jsstring \<Rightarrow> int option" where
  "parseNameTimestampMs name =
     (case nameTimeMatch name of
        None \<Rightarrow> None
      | Some (y, mo, d, hh, mm, ss) \<Rightarrow> Some (Date_UTC y (mo - 1) d hh mm ss))"

text \<open>
  \<open>a || b\<close> on a number or \<open>null\<close>: \<open>null\<close>, \<open>NaN\<close> and \<open>0\<close> are falsy. The guards
  \<open>fromMs && nameMs < fromMs\<close> and \<open>toMs && nameMs >= toMs\<close> test the bound for truthiness
  in the same way; a comparison with \<open>NaN\<close> is false.
\<close>

definition orElseMs :: "int option \<Rightarrow> int option \<Rightarrow> int option" where
  "orElseMs a b = (case a of None \<Rightarrow> b | Some v \<Rightarrow> if v = 0 then b else Some v)"

definition beforeFrom :: "int option \<Rightarrow> int option \<Rightarrow> bool" where
  "beforeFrom fromMs nameMs =
     (case fromMs of None \<Rightarrow> False
      | Some f \<Rightarrow> f \<noteq> 0 \<and> (case nameMs of None \<Rightarrow> False | Some t \<Rightarrow> t < f))"

definition atOrAfterTo :: "int option \<Rightarrow> int option \<Rightarrow> bool" where
  "atOrAfterTo toMs nameMs =
     (case toMs of None \<Rightarrow> False
      | Some e \<Rightarrow> e \<noteq> 0 \<and> (case nameMs of None \<Rightarrow> False | Some t \<Rightarrow> t \<ge> e))"

section \<open>Transcript search (server.js, lines 433-583)\<close>

text \<open>
  A response is \<open>{ok: true, ...}\<close> with its payload or \<open>{ok: false, error}\<close> with its
  message.
\<close>

datatype 'a response = Ok 'a | Fail jsstring

record tresult =
  r_id :: jsstring
  r_name :: jsstring
  r_mimeType :: jsstring
  r_modified :: jsstring
  r_link :: jsstring
  r_preview :: jsstring

text \<open>
  The query of \<open>findtranscripts\<close>. An absent string parameter is the empty string (every use
  is \<open>p.x || ""\<close>); \<open>q_limit\<close> is the integer \<open>Number\<close> reads from a supplied \<open>limit\<close>
  (a number with a fraction and a text that is no number are outside this model).
\<close>

record tquery =
  q_from :: jsstring
  q_to :: jsstring
  q_keywords :: jsstring
  q_limit :: "int option"

definition MAX_CONTENT_CHECKS :: nat where
  "MAX_CONTENT_CHECKS = 200"

definition limitOf :: "tquery \<Rightarrow> int" where
  "limitOf p = min (case q_limit p of None \<Rightarrow> 10 | Some n \<Rightarrow> n) 50"

definition fromMsOf :: "tquery \<Rightarrow> int option" where
  "fromMsOf p = boundMs (parseDateInput (q_from p) False)"

definition toMsOf :: "tquery \<Rightarrow> int option" where
  "toMsOf p = boundMs (parseDateInput (q_to p) True)"

text \<open>The accumulators of one request: the results pushed so far and the content reads done.\<close>

record scan =
  results :: "tresult list"
  checks :: nat

definition scan0 :: scan where
  "scan0 = \<lparr>results = [], checks = 0\<rparr>"

text \<open>\<open>results.length >= limit\<close>\<close>

definition limitReached :: "int \<Rightarrow> scan \<Rightarrow> bool" where
  "limitReached lim st = (int (length (results st)) \<ge> lim)"

text \<open>
  The keyword test, the same statements in both loops: the name first; when it does not
  hit and reads remain, the content, whose read may fail (\<open>None\<close>: the \<open>catch\<close> leaves
  \<open>hit\<close> false and \<open>checks\<close> as it was). The result is \<open>hit\<close>, \<open>preview\<close> and \<open>checks\<close>.
\<close>

definition keywordTest :: "jsstring list \<Rightarrow> jsstring \<Rightarrow> jsstring option \<Rightarrow> nat \<Rightarrow> bool \<times> jsstring \<times> nat" where
  "keywordTest kws name content n =
     (let hit = (if kws \<noteq> [] then anyKeywordHit name kws else True)
      in if \<not> hit \<and> kws \<noteq> [] \<and> n < MAX_CONTENT_CHECKS
         then (case content of
                 None \<Rightarrow> (False, [], n)
               | Some body \<Rightarrow>
                   if anyKeywordHit body kws then (True, makePreview body 500, n + 1)
                   else (False, [], n + 1))
         else (hit, [], n))"

text \<open>
  The comparator \<open>(b.modified || "").localeCompare(a.modified || "")\<close> is taken as the order
  of the code units, with which it agrees on time stamps of one format. \<open>sort\<close> is stable,
  and a stable sort is determined by its comparator: an insertion sort states it.
\<close>

fun insertByModified :: "tresult \<Rightarrow> tresult list \<Rightarrow> tresult list" where
  "insertByModified x [] = [x]"
| "insertByModified x (y # ys) =
     (if r_modified y \<le> r_modified x then x # y # ys else y # insertByModified x ys)"

definition sortByModifiedDesc :: "tresult list \<Rightarrow> tresult list" where
  "sortByModifiedDesc xs = foldr insertByModified xs []"

subsection \<open>The local folder\<close>

text \<open>
  What \<open>readdir\<close>, \<open>stat\<close> and \<open>readFile\<close> report: an entry is a file, with its name, the
  time value of its \<open>mtime\<close> and its content (\<open>None\<close> when \<open>readFile\<close> throws), or a
  directory with its entries in \<open>readdir\<close> order. (\<open>readdir\<close> and \<open>stat\<close> are taken to
  succeed on the entries of the tree.)
\<close>

datatype fsnode = FileNode jsstring int "jsstring option" | DirNode jsstring "fsnode list"

text \<open>\<open>path.join(folderPath, item)\<close>, for a folder path and an entry name that need no normalising.\<close>

definition pathJoin :: "jsstring \<Rightarrow> jsstring \<Rightarrow> jsstring" where
  "pathJoin folderPath item = folderPath @ js ''/'' @ item"

text \<open>\<open>parseNameTimestampMs(item) || stats.mtime.getTime()\<close>\<close>

definition localNameMs :: "jsstring \<Rightarrow> int \<Rightarrow> int" where
  "localNameMs item mtime =
     (case parseNameTimestampMs item of None \<Rightarrow> mtime | Some v \<Rightarrow> if v = 0 then mtime else v)"

text \<open>The entry pushed for a local file: \<open>nameMs\<close> is its time, \<open>preview\<close> its excerpt.\<close>

definition localResult :: "jsstring \<Rightarrow> jsstring \<Rightarrow> int \<Rightarrow> jsstring \<Rightarrow> tresult" where
  "localResult itemPath item nameMs preview =
     \<lparr>r_id = itemPath, r_name = item, r_mimeType = js ''text/plain'',
      r_modified = toISOString nameMs, r_link = js ''file://'' @ itemPath, r_preview = preview\<rparr>"

text \<open>The body of the loop of \<open>scanFolder\<close> for an entry that is a file.\<close>

definition scanFile :: "int option \<Rightarrow> int option \<Rightarrow> jsstring list \<Rightarrow> jsstring \<Rightarrow> jsstring \<Rightarrow> int \<Rightarrow> jsstring option \<Rightarrow> scan \<Rightarrow> scan" where
  "scanFile fromMs toMs kws folderPath item mtime content st =
     (if \<not> hasAllowedTranscriptExt item then st
      else (let itemPath = pathJoin folderPath item; nameMs = localNameMs item mtime
            in if beforeFrom fromMs (Some nameMs) then st
               else if atOrAfterTo toMs (Some nameMs) then st
               else (case keywordTest kws item content (checks st) of
                       (hit, preview, n) \<Rightarrow>
                         if hit
                         then \<lparr>results = results st @ [localResult itemPath item nameMs preview],
                               checks = n\<rparr>
                         else \<lparr>results = results st, checks = n\<rparr>)))"

fun scanFolder :: "int \<Rightarrow> int option \<Rightarrow> int option \<Rightarrow> jsstring list \<Rightarrow> jsstring \<Rightarrow> nat \<Rightarrow> fsnode list \<Rightarrow> scan \<Rightarrow> scan"
  and scanItems :: "int \<Rightarrow> int option \<Rightarrow> int option \<Rightarrow> jsstring list \<Rightarrow> jsstring \<Rightarrow> nat \<Rightarrow> fsnode list \<Rightarrow> scan \<Rightarrow> scan"
where
  "scanFolder lim fromMs toMs kws folderPath depth items st =
     (if depth > 3 \<or> limitReached lim st then st
      else scanItems lim fromMs toMs kws folderPath depth items st)"
| "scanItems lim fromMs toMs kws folderPath depth [] st = st"
| "scanItems lim fromMs toMs kws folderPath depth (FileNode item mtime content # rest) st =
     (if limitReached lim st then st
      else scanItems lim fromMs toMs kws folderPath depth rest
             (scanFile fromMs toMs kws folderPath item mtime content st))"
| "scanItems lim fromMs toMs kws folderPath depth (DirNode item children # rest) st =
     (if limitReached lim st then st
      else scanItems lim fromMs toMs kws folderPath depth rest
             (scanFolder lim fromMs toMs kws (pathJoin folderPath item) (depth + 1) children st))"

text \<open>
  \<open>findTranscriptsLocal\<close>: \<open>folder\<close> is \<open>TRANSCRIPTS_FOLDER\<close> (or \<open>./transcripts\<close>) and
  \<open>root\<close> its entries, \<open>None\<close> when \<open>pathExists\<close> is false.
\<close>

definition findTranscriptsLocal :: "tquery \<Rightarrow> jsstring \<Rightarrow> fsnode list option \<Rightarrow> tresult list response" where
  "findTranscriptsLocal p folder root =
     (let lim = limitOf p; fromMs = fromMsOf p; toMs = toMsOf p; kws = parseKeywords (q_keywords p)
      in case root of
           None \<Rightarrow> Fail (js ''Transcripts folder not found: '' @ folder)
         | Some items \<Rightarrow>
             Ok (slice0 (sortByModifiedDesc (results (scanFolder lim fromMs toMs kws folder 0 items scan0))) lim))"

subsection \<open>The drive\<close>

text \<open>
  An entry of the listing, with the fields the search reads; an absent field is the empty
  string (each is read as \<open>f.x || ...\<close> or tested for truthiness).
\<close>

record gfile =
  g_id :: jsstring
  g_name :: jsstring
  g_mimeType :: jsstring
  g_modifiedTime :: jsstring

definition isTranscriptFile :: "gfile \<Rightarrow> bool" where
  "isTranscriptFile f =
     (let name = toLowerCase (g_name f)
      in endsWith name (js ''.txt'') \<or> endsWith name (js ''.vtt'') \<or> endsWith name (js ''.srt'')
         \<or> g_mimeType f = js ''application/vnd.google-apps.document'')"

text \<open>
  \<open>parseNameTimestampMs(f.name) || (f.modifiedTime ? Date.parse(f.modifiedTime) : Date.now())\<close>;
  \<open>None\<close> is \<open>NaN\<close>.
\<close>

definition gdriveNameMs :: "int \<Rightarrow> gfile \<Rightarrow> int option" where
  "gdriveNameMs now f =
     orElseMs (parseNameTimestampMs (g_name f))
       (if g_modifiedTime f \<noteq> [] then Date_parse (g_modifiedTime f) else Some now)"

text \<open>
  \<open>f.modifiedTime || new Date(nameMs).toISOString()\<close>: without a modification time
  \<open>nameMs\<close> is the time in the name or the clock, never \<open>NaN\<close>.
\<close>

definition gdriveModified :: "int \<Rightarrow> gfile \<Rightarrow> jsstring" where
  "gdriveModified now f =
     (if g_modifiedTime f \<noteq> [] then g_modifiedTime f
      else (case gdriveNameMs now f of Some t \<Rightarrow> toISOString t | None \<Rightarrow> toISOString now))"

text \<open>The entry pushed for a drive file.\<close>

definition gdriveResult :: "int \<Rightarrow> gfile \<Rightarrow> jsstring \<Rightarrow> tresult" where
  "gdriveResult now f preview =
     \<lparr>r_id = js ''gdrive:'' @ g_id f, r_name = g_name f,
      r_mimeType = (if g_mimeType f \<noteq> [] then g_mimeType f else js ''text/plain''),
      r_modified = gdriveModified now f,
      r_link = js ''https://drive.google.com/file/d/'' @ g_id f @ js ''/view'',
      r_preview = preview\<rparr>"

text \<open>
  The body of the loop of \<open>findTranscriptsGDrive\<close>. \<open>readFile\<close> is \<open>gdriveReadFile\<close> on the
  drive of this request (\<open>None\<close> when it throws), \<open>now\<close> the clock.
\<close>

definition gdriveFile :: "int option \<Rightarrow> int option \<Rightarrow> jsstring list \<Rightarrow> int \<Rightarrow> (jsstring \<Rightarrow> jsstring option) \<Rightarrow> gfile \<Rightarrow> scan \<Rightarrow> scan" where
  "gdriveFile fromMs toMs kws now readFile f st =
     (let nameMs = gdriveNameMs now f
      in if beforeFrom fromMs nameMs then st
         else if atOrAfterTo toMs nameMs then st
         else (case keywordTest kws (g_name f) (readFile (g_id f)) (checks st) of
                 (hit, preview, n) \<Rightarrow>
                   if hit
                   then \<lparr>results = results st @ [gdriveResult now f preview], checks = n\<rparr>
                   else \<lparr>results = results st, checks = n\<rparr>))"

fun gdriveLoop :: "int \<Rightarrow> int option \<Rightarrow> int option \<Rightarrow> jsstring list \<Rightarrow> int \<Rightarrow> (jsstring \<Rightarrow> jsstring option) \<Rightarrow> gfile list \<Rightarrow> scan \<Rightarrow> scan" where
  "gdriveLoop lim fromMs toMs kws now readFile [] st = st"
| "gdriveLoop lim fromMs toMs kws now readFile (f # fs) st =
     (if limitReached lim st then st
      else gdriveLoop lim fromMs toMs kws now readFile fs (gdriveFile fromMs toMs kws now readFile f st))"

text \<open>
  \<open>findTranscriptsGDrive\<close>: \<open>listing\<close> is what \<open>gdriveListAllFiles\<close> returns, or the message
  of the error it throws.
\<close>

definition findTranscriptsGDrive :: "tquery \<Rightarrow> int \<Rightarrow> (jsstring \<Rightarrow> jsstring option) \<Rightarrow> jsstring + gfile list \<Rightarrow> tresult list response" where
  "findTranscriptsGDrive p now readFile listing =
     (let lim = limitOf p; fromMs = fromMsOf p; toMs = toMsOf p; kws = parseKeywords (q_keywords p)
      in case listing of
           Inl msg \<Rightarrow> Fail (js ''Google Drive error: '' @ msg)
         | Inr allFiles \<Rightarrow>
             Ok (slice0 (sortByModifiedDesc
                   (results (gdriveLoop lim fromMs toMs kws now readFile (filter isTranscriptFile allFiles) scan0)))
                 lim))"

section \<open>Prompts (server.js, lines 174-177, 333-369, 633-663 and 758)\<close>

definition PREVIEW_LEN :: int where
  "PREVIEW_LEN = 700"

definition ANSWER_LEN :: nat where
  "ANSWER_LEN = 1800"

definition MAX_TRANSCRIPT_CHARS :: nat where
  "MAX_TRANSCRIPT_CHARS = 120000"

definition clip :: "jsstring \<Rightarrow> int \<Rightarrow> jsstring" where
  "clip s n = (if int (length s) > n then slice0 s (n - 1) @ ELLIPSIS else s)"

text \<open>\<open>lines.join(sep)\<close>\<close>

fun joinWith :: "jsstring \<Rightarrow> jsstring list \<Rightarrow> jsstring" where
  "joinWith sep [] = []"
| "joinWith sep [x] = x"
| "joinWith sep (x # y # ys) = x @ sep @ joinWith sep (y # ys)"

text \<open>A number in a template literal: its decimal digits.\<close>

function showNat :: "nat \<Rightarrow> jsstring" where
  "showNat n = (if n < 10 then [48 + n] else showNat (n div 10) @ [48 + n mod 10])"
  by pat_completeness auto
termination
  by (relation "measure id") auto

text \<open>A row of the data store as \<open>fetchFromSupabase\<close> returns it.\<close>

record row =
  row_title :: jsstring
  row_date_iso :: jsstring
  row_summary_text :: jsstring
  row_countries :: jsstring
  row_type :: jsstring
  row_message_id :: jsstring
  row_file_path :: jsstring
  row_source_url :: jsstring

text \<open>One entry of the items block; \<open>i\<close> is the index of the row, from 0.\<close>

definition itemText :: "nat \<Rightarrow> row \<Rightarrow> jsstring" where
  \<open>itemText i it =
     js ''['' @ showNat (i + 1) @ js ''] '' @ row_title it @ [32, 8218, 196, 238, 32] @ row_date_iso it
       @ (if row_countries it \<noteq> [] then [32, 8218, 196, 238, 32] @ row_countries it else [])
       @ [10] @ clip (collapseWs (row_summary_text it)) PREVIEW_LEN\<close>

definition itemsBlock :: "row list \<Rightarrow> jsstring" where
  "itemsBlock items = joinWith [10, 10] (map (\<lambda>(i, it). itemText i it) (enumerate 0 items))"

definition buildPromptSimple :: "jsstring \<Rightarrow> row list \<Rightarrow> jsstring \<Rightarrow> jsstring" where
  \<open>buildPromptSimple question items style =
     (let brevity =
            (if style = js ''short''
             then js ''Keep the answer concise ('' @ [8218, 226, 167] @ js '' 150 words).''
             else js ''Be reasonably thorough ('' @ [8218, 226, 167] @ js '' '' @ showNat ANSWER_LEN
                    @ js '' characters).'')
      in joinWith [10]
          [js ''Answer the user's question using ONLY the Items below.'',
           [],
           js ''FORMATTING RULES (MUST FOLLOW):'',
           js ''- Return clean HTML only (no Markdown fences or code blocks)'',
           js ''- ALWAYS use bullet points (<ul><li>) for lists of items or updates'',
           js ''- ALWAYS use <strong> tags to bold key names, dates, topics, and important terms'',
           js ''- Use <h4> for section headers when organizing multiple topics'',
           js ''- Keep paragraphs short and scannable'',
           js ''- When citing sources, use [n] format with the number in bold: <strong>[1]</strong>'',
           js ''- Example format:'',
           js ''  <h4>Topic Name</h4>'',
           js ''  <ul>'',
           js ''    <li><strong>Key Person</strong> discussed <strong>Important Topic</strong> on <strong>Date</strong> [1]</li>'',
           js ''  </ul>'',
           [],
           js ''CONTEXT:'',
           js ''My name is Jeff Kern, and I am a Network Engagement Lead at Teach For All. Any references to 'Jeff' refer to me. I manage relationships with partner organizations in the European region (Ukraine, Latvia, Slovakia, Italy, Spain, Portugal) and early-stage partners (Albania, Moldova). I work with CEOs to deepen network engagement and foster collaborative learning.'',
           [],
           brevity,
           [],
           js ''Question:'', trim question,
           [],
           js ''Items:'', itemsBlock items,
           [],
           js ''Remember: Use bullets and bold formatting. Make it easy to scan.''])\<close>

text \<open>The follow-up prompt of \<open>ask\<close>: the question between two fixed texts.\<close>

definition followUpPrompt :: "jsstring \<Rightarrow> jsstring" where
  \<open>followUpPrompt question =
     js ''Follow-up question (use the same data context from our conversation):'' @ [10, 10]
       @ question @ [10, 10]
       @ js ''Remember to return clean HTML and cite sources using [n] format if relevant.''\<close>

text \<open>The two prompts of \<open>askTranscript\<close>.\<close>

definition transcriptPrompt :: "jsstring \<Rightarrow> jsstring \<Rightarrow> jsstring" where
  \<open>transcriptPrompt q truncatedText =
     joinWith [10]
       [js ''You answer questions about a meeting transcript.'',
        [],
        js ''FORMATTING RULES (MUST FOLLOW):'',
        js ''- Return clean HTML only (no Markdown fences or code blocks)'',
        js ''- ALWAYS use bullet points (<ul><li>) for lists'',
        js ''- ALWAYS use <strong> tags to bold key names, dates, topics, and important terms'',
        js ''- Use <h4> for section headers when organizing multiple topics'',
        js ''- Keep paragraphs short and scannable'',
        js ''- Example format:'',
        js ''  <h4>Topic Name</h4>'',
        js ''  <ul>'',
        js ''    <li><strong>Person Name</strong> discussed <strong>Topic</strong></li>'',
        js ''  </ul>'',
        [],
        js ''If not clearly in the transcript, say so briefly.'',
        [],
        js ''CONTEXT: My name is Jeff Kern, Network Engagement Lead at Teach For All. I manage European region partners (Ukraine, Latvia, Slovakia, Italy, Spain, Portugal) and early-stage partners (Albania, Moldova).'',
        [],
        js ''Question:'', q,
        [],
        js ''Transcript:'', js ''"""'', truncatedText, js ''"""'',
        [],
        js ''Remember: Use bullets and bold formatting. Make it easy to scan.'']\<close>

definition followUpTranscriptPrompt :: "jsstring \<Rightarrow> jsstring" where
  \<open>followUpTranscriptPrompt q =
     js ''Follow-up question about the same transcript:'' @ [10, 10] @ q @ [10, 10]
       @ js ''Remember: Return clean HTML with bullets and bold formatting. Make it easy to scan.''\<close>

section \<open>Conversation stores (server.js, lines 154-167 and 585-598)\<close>

datatype role = User | Model

record turn =
  t_role :: role
  t_text :: jsstring

text \<open>
  The key of the loaded context: \<open>JSON.stringify\<close> of the five filters. Two keys are the
  same string exactly when the five strings agree, so the key is modelled by the five.
\<close>

type_synonym filtersKey = "jsstring \<times> jsstring \<times> jsstring \<times> jsstring \<times> jsstring"

record conversation =
  c_history :: "turn list"
  c_context :: "filtersKey option"

record transcriptConversation =
  tc_history :: "turn list"
  tc_transcriptId :: "jsstring option"

text \<open>
  The two maps of the process. A conversation object is changed in place by the handlers;
  here a handler writes the changed conversation back under its key.
\<close>

record server =
  conversations :: "jsstring \<rightharpoonup> conversation"
  transcriptConversations :: "jsstring \<rightharpoonup> transcriptConversation"

definition server0 :: server where
  "server0 = \<lparr>conversations = Map.empty, transcriptConversations = Map.empty\<rparr>"

definition getConversation :: "(jsstring \<rightharpoonup> conversation) \<Rightarrow> jsstring \<Rightarrow> (jsstring \<rightharpoonup> conversation) \<times> conversation" where
  "getConversation convs sessionId =
     (case convs sessionId of
        None \<Rightarrow> (convs(sessionId \<mapsto> \<lparr>c_history = [], c_context = None\<rparr>),
                 \<lparr>c_history = [], c_context = None\<rparr>)
      | Some c \<Rightarrow> (convs, c))"

definition clearConversation :: "(jsstring \<rightharpoonup> conversation) \<Rightarrow> jsstring \<Rightarrow> (jsstring \<rightharpoonup> conversation)" where
  "clearConversation convs sessionId = convs(sessionId := None)"

definition getTranscriptConversation :: "(jsstring \<rightharpoonup> transcriptConversation) \<Rightarrow> jsstring \<Rightarrow> (jsstring \<rightharpoonup> transcriptConversation) \<times> transcriptConversation" where
  "getTranscriptConversation convs sessionId =
     (case convs sessionId of
        None \<Rightarrow> (convs(sessionId \<mapsto> \<lparr>tc_history = [], tc_transcriptId = None\<rparr>),
                 \<lparr>tc_history = [], tc_transcriptId = None\<rparr>)
      | Some c \<Rightarrow> (convs, c))"

definition clearTranscriptConversation :: "(jsstring \<rightharpoonup> transcriptConversation) \<Rightarrow> jsstring \<Rightarrow> (jsstring \<rightharpoonup> transcriptConversation)" where
  "clearTranscriptConversation convs sessionId = convs(sessionId := None)"

definition MAX_CONVERSATION_HISTORY :: nat where
  "MAX_CONVERSATION_HISTORY = 20"

text \<open>
  The end of both handlers: push the user turn and the model turn, then keep the last
  \<open>2 * MAX_CONVERSATION_HISTORY\<close> entries when there are more.
\<close>

definition storeTurns :: "turn list \<Rightarrow> jsstring \<Rightarrow> jsstring \<Rightarrow> turn list" where
  "storeTurns hist prompt answer =
     (let h = hist @ [\<lparr>t_role = User, t_text = prompt\<rparr>, \<lparr>t_role = Model, t_text = answer\<rparr>]
      in if length h > MAX_CONVERSATION_HISTORY * 2 then sliceLast h (MAX_CONVERSATION_HISTORY * 2)
         else h)"

text \<open>\<open>s || d\<close> on a string parameter: the empty string and an absent one are falsy.\<close>

definition orDefault :: "jsstring \<Rightarrow> jsstring \<Rightarrow> jsstring" where
  "orDefault s d = (if s = [] then d else s)"

section \<open>The handlers (server.js, lines 601-683 and 716-792)\<close>

text \<open>
  The language model is an input of a request: \<open>gemini prompt history\<close> is the trimmed,
  non-empty answer, or the text of the error the call throws, which the \<open>catch\<close> of the route
  renders as \<open>{ok: false, error}\<close>.
\<close>

type_synonym gemini = "jsstring \<Rightarrow> turn list \<Rightarrow> jsstring + jsstring"

subsection \<open>\<open>ask\<close>\<close>

text \<open>
  The parameters of \<open>ask\<close> (an absent one is the empty string). \<open>limit\<close> only reaches the
  query of the data store, whose outcome is an input: what \<open>fetchFromSupabase\<close> returns, or
  the text of the error it throws.
\<close>

record askQuery =
  a_sessionId :: jsstring
  a_from :: jsstring
  a_to :: jsstring
  a_type :: jsstring
  a_countries :: jsstring
  a_topic :: jsstring
  a_style :: jsstring
  a_question :: jsstring
  a_q :: jsstring

record fetched =
  f_rows :: "row list"
  f_restUrl :: jsstring
  f_sqlApprox :: jsstring
  f_filters :: jsstring

record source =
  s_title :: jsstring
  s_date :: jsstring
  s_type :: jsstring
  s_countries :: jsstring
  s_message_id :: jsstring
  s_file_path :: jsstring
  s_source_url :: jsstring

definition sourceOf :: "row \<Rightarrow> source" where
  "sourceOf r =
     \<lparr>s_title = row_title r, s_date = row_date_iso r, s_type = row_type r,
      s_countries = row_countries r, s_message_id = row_message_id r,
      s_file_path = row_file_path r, s_source_url = row_source_url r\<rparr>"

text \<open>
  The payload of a successful \<open>ask\<close>; \<open>ar_prompt\<close> is \<open>debug.prompt\<close>, the prompt sent to
  the model. \<open>conversationLength\<close> is \<open>history.length / 2\<close>, on a length that is even.
\<close>

record askResponse =
  ar_filters :: jsstring
  ar_answer :: jsstring
  ar_sources :: "source list"
  ar_conversationLength :: nat
  ar_isNewConversation :: bool
  ar_rest :: jsstring
  ar_sql_approx :: jsstring
  ar_prompt :: jsstring

definition questionOf :: "askQuery \<Rightarrow> jsstring" where
  "questionOf q = orDefault (a_question q) (a_q q)"

definition filtersKeyOf :: "askQuery \<Rightarrow> filtersKey" where
  "filtersKeyOf q = (a_from q, a_to q, orDefault (a_type q) (js ''all''), a_countries q, a_topic q)"

definition ask :: "server \<Rightarrow> askQuery \<Rightarrow> jsstring + fetched \<Rightarrow> gemini \<Rightarrow> server \<times> askResponse response" where
  "ask sv q fetchResult gem =
     (let sessionId = orDefault (a_sessionId q) (js ''default'')
      in case getConversation (conversations sv) sessionId of
           (convs, conversation) \<Rightarrow>
             (case fetchResult of
                Inl err \<Rightarrow> (sv\<lparr>conversations := convs\<rparr>, Fail err)
              | Inr fetched \<Rightarrow>
                  (let filtersKey = filtersKeyOf q;
                       needsNewContext =
                         (c_context conversation \<noteq> Some filtersKey \<or> c_history conversation = []);
                       prompt =
                         (if needsNewContext
                          then buildPromptSimple (questionOf q) (f_rows fetched)
                                 (orDefault (a_style q) (js ''normal''))
                          else followUpPrompt (questionOf q));
                       conv1 =
                         (if needsNewContext then \<lparr>c_history = [], c_context = Some filtersKey\<rparr>
                          else conversation)
                   in case gem prompt (c_history conv1) of
                        Inl err \<Rightarrow> (sv\<lparr>conversations := convs(sessionId \<mapsto> conv1)\<rparr>, Fail err)
                      | Inr answer \<Rightarrow>
                          (let conv2 = conv1\<lparr>c_history := storeTurns (c_history conv1) prompt answer\<rparr>
                           in (sv\<lparr>conversations := convs(sessionId \<mapsto> conv2)\<rparr>,
                               Ok \<lparr>ar_filters = f_filters fetched, ar_answer = answer,
                                   ar_sources = map sourceOf (f_rows fetched),
                                   ar_conversationLength = length (c_history conv2) div 2,
                                   ar_isNewConversation = needsNewContext,
                                   ar_rest = f_restUrl fetched, ar_sql_approx = f_sqlApprox fetched,
                                   ar_prompt = prompt\<rparr>)))))"

subsection \<open>\<open>asktranscript\<close>\<close>

record trQuery =
  tq_id :: jsstring
  tq_question :: jsstring
  tq_sessionId :: jsstring

record trResponse =
  tr_answer :: jsstring
  tr_conversationLength :: nat
  tr_isNewConversation :: bool

text \<open>
  The document source of a request: \<open>gdriveReadFile\<close> and \<open>fs.readFile\<close>, each giving the
  content or the message of the error it throws.
\<close>

type_synonym reader = "jsstring \<Rightarrow> jsstring + jsstring"

definition readTranscript :: "reader \<Rightarrow> reader \<Rightarrow> jsstring \<Rightarrow> jsstring + jsstring" where
  "readTranscript gdriveReadFile fsReadFile id' =
     (if startsWith id' (js ''gdrive:'') then gdriveReadFile (drop 7 id') else fsReadFile id')"

definition askTranscript :: "server \<Rightarrow> trQuery \<Rightarrow> reader \<Rightarrow> reader \<Rightarrow> gemini \<Rightarrow> server \<times> trResponse response" where
  "askTranscript sv p gdriveReadFile fsReadFile gem =
     (let id' = trim (tq_id p); q = trim (tq_question p);
          sessionId = trim (orDefault (tq_sessionId p) (js ''tr_default''))
      in if id' = [] then (sv, Fail (js ''Missing transcript id''))
         else if q = [] then (sv, Fail (js ''Missing question''))
         else (case getTranscriptConversation (transcriptConversations sv) sessionId of
                 (convs, conversation) \<Rightarrow>
                   (let isNewTranscript = (tc_transcriptId conversation \<noteq> Some id')
                    in case readTranscript gdriveReadFile fsReadFile id' of
                         Inl msg \<Rightarrow>
                           (sv\<lparr>transcriptConversations := convs\<rparr>,
                            Fail (js ''Failed to read transcript: '' @ msg))
                       | Inr raw \<Rightarrow>
                           if trim raw = []
                           then (sv\<lparr>transcriptConversations := convs\<rparr>, Fail (js ''Transcript is empty''))
                           else (let text = filter (\<lambda>c. c \<noteq> 13) raw;
                                     truncatedText =
                                       (if length text > MAX_TRANSCRIPT_CHARS
                                        then drop (length text - MAX_TRANSCRIPT_CHARS) text else text);
                                     full = (isNewTranscript \<or> tc_history conversation = []);
                                     prompt =
                                       (if full then transcriptPrompt q truncatedText
                                        else followUpTranscriptPrompt q);
                                     conv1 =
                                       (if full then \<lparr>tc_history = [], tc_transcriptId = Some id'\<rparr>
                                        else conversation)
                                 in case gem prompt (tc_history conv1) of
                                      Inl err \<Rightarrow>
                                        (sv\<lparr>transcriptConversations := convs(sessionId \<mapsto> conv1)\<rparr>,
                                         Fail err)
                                    | Inr answer \<Rightarrow>
                                        (let conv2 =
                                               conv1\<lparr>tc_history :=
                                                       storeTurns (tc_history conv1) prompt answer\<rparr>
                                         in (sv\<lparr>transcriptConversations := convs(sessionId \<mapsto> conv2)\<rparr>,
                                             Ok \<lparr>tr_answer = answer,
                                                 tr_conversationLength = length (tc_history conv2) div 2,
                                                 tr_isNewConversation =
                                                   (isNewTranscript \<or> length (tc_history conv2) = 2)\<rparr>))))))"

subsection \<open>The clearing actions and a run of requests\<close>

definition clearconversation :: "server \<Rightarrow> jsstring \<Rightarrow> server" where
  "clearconversation sv sessionId =
     sv\<lparr>conversations := clearConversation (conversations sv) (orDefault sessionId (js ''default''))\<rparr>"

definition cleartranscriptconversation :: "server \<Rightarrow> jsstring \<Rightarrow> server" where
  "cleartranscriptconversation sv sessionId =
     sv\<lparr>transcriptConversations :=
          clearTranscriptConversation (transcriptConversations sv) (orDefault sessionId (js ''tr_default''))\<rparr>"

text \<open>A request on the conversation stores, with what the outside answers to it.\<close>

datatype request =
    AskReq askQuery "jsstring + fetched" gemini
  | AskTranscriptReq trQuery reader reader gemini
  | ClearReq jsstring
  | ClearTranscriptReq jsstring

fun handle :: "server \<Rightarrow> request \<Rightarrow> server" where
  "handle sv (AskReq q fetchResult gem) = fst (ask sv q fetchResult gem)"
| "handle sv (AskTranscriptReq p gd fsr gem) = fst (askTranscript sv p gd fsr gem)"
| "handle sv (ClearReq sessionId) = clearconversation sv sessionId"
| "handle sv (ClearTranscriptReq sessionId) = cleartranscriptconversation sv sessionId"

definition serve :: "request list \<Rightarrow> server" where
  "serve reqs = foldl handle server0 reqs"

section \<open>Notions used to state the properties\<close>

text \<open>
  A term is a case-insensitive substring of a text when its lower-cased form occurs in the
  lower-cased text as a contiguous block.
\<close>

definition ciContains :: "jsstring \<Rightarrow> jsstring \<Rightarrow> bool" where
  "ciContains hay w = sublist (toLowerCase w) (toLowerCase hay)"

definition anyTermIn :: "jsstring list \<Rightarrow> jsstring \<Rightarrow> bool" where
  "anyTermIn kws hay = list_ex (ciContains hay) kws"


text \<open>
  The files of a folder in the order \<open>scanFolder\<close> visits them, down to the depth it
  descends to, each with the path of its folder, its name, its \<open>mtime\<close> and its content; and
  the loop of \<open>scanFolder\<close> over such a list.
\<close>

type_synonym visited = "jsstring \<times> jsstring \<times> int \<times> jsstring option"

fun walkFolder :: "jsstring \<Rightarrow> nat \<Rightarrow> fsnode list \<Rightarrow> visited list"
  and walkItems :: "jsstring \<Rightarrow> nat \<Rightarrow> fsnode list \<Rightarrow> visited list"
where
  "walkFolder folderPath depth items = (if depth > 3 then [] else walkItems folderPath depth items)"
| "walkItems folderPath depth [] = []"
| "walkItems folderPath depth (FileNode item mtime content # rest) =
     (folderPath, item, mtime, content) # walkItems folderPath depth rest"
| "walkItems folderPath depth (DirNode item children # rest) =
     walkFolder (pathJoin folderPath item) (depth + 1) children @ walkItems folderPath depth rest"

fun scanFiles :: "int \<Rightarrow> int option \<Rightarrow> int option \<Rightarrow> jsstring list \<Rightarrow> visited list \<Rightarrow> scan \<Rightarrow> scan" where
  "scanFiles lim fromMs toMs kws [] st = st"
| "scanFiles lim fromMs toMs kws ((folderPath, item, mtime, content) # rest) st =
     (if limitReached lim st then st
      else scanFiles lim fromMs toMs kws rest (scanFile fromMs toMs kws folderPath item mtime content st))"

text \<open>A file passes the filters of extension and date.\<close>

definition isCandidate :: "int option \<Rightarrow> int option \<Rightarrow> jsstring \<Rightarrow> int \<Rightarrow> bool" where
  "isCandidate fromMs toMs item mtime =
     (hasAllowedTranscriptExt item \<and> \<not> beforeFrom fromMs (Some (localNameMs item mtime))
      \<and> \<not> atOrAfterTo toMs (Some (localNameMs item mtime)))"

definition isDriveCandidate :: "int option \<Rightarrow> int option \<Rightarrow> int \<Rightarrow> gfile \<Rightarrow> bool" where
  "isDriveCandidate fromMs toMs now f =
     (isTranscriptFile f \<and> \<not> beforeFrom fromMs (gdriveNameMs now f)
      \<and> \<not> atOrAfterTo toMs (gdriveNameMs now f))"

text \<open>The invariant of a conversation history, and of the two stores.\<close>

definition historyOk :: "turn list \<Rightarrow> bool" where
  "historyOk h = (even (length h) \<and> length h \<le> 2 * MAX_CONVERSATION_HISTORY)"

definition storesOk :: "server \<Rightarrow> bool" where
  "storesOk sv =
     ((\<forall>sid c. conversations sv sid = Some c \<longrightarrow> historyOk (c_history c))
      \<and> (\<forall>sid c. transcriptConversations sv sid = Some c \<longrightarrow> historyOk (tc_history c)))"

text \<open>The history a transcript store holds for a session; none is the empty history.\<close>

definition historyOf :: "(jsstring \<rightharpoonup> transcriptConversation) \<Rightarrow> jsstring \<Rightarrow> turn list" where
  "historyOf convs sid = (case convs sid of None \<Rightarrow> [] | Some c \<Rightarrow> tc_history c)"

section \<open>Concrete requests\<close>


definition budgetFolder :: "fsnode list" where
  "budgetFolder =
     [FileNode (js ''2024-01-05 10.00.00 notes.txt'') 5 (Some (js ''The  Budget review'')),
      FileNode (js ''2024-02-01 09.00.00 other.txt'') 7 (Some (js ''nothing here''))]"


text \<open>A drive that lists one file, whose content holds the word.\<close>

definition driveNotes :: gfile where
  "driveNotes = \<lparr>g_id = js ''f1'', g_name = js ''notes.txt'', g_mimeType = [],
                  g_modifiedTime = js ''2024-01-05T10:00:00.000Z''\<rparr>"

definition driveRead :: "jsstring \<Rightarrow> jsstring option" where
  "driveRead = (\<lambda>fileId. Some (js ''Budget review''))"

text \<open>A search without keywords, one with a limit of 1 and one with a limit of \<open>-1\<close>.\<close>

definition plainQuery :: tquery where
  "plainQuery = \<lparr>q_from = [], q_to = [], q_keywords = [], q_limit = None\<rparr>"


definition negativeQuery :: tquery where
  "negativeQuery = \<lparr>q_from = [], q_to = [], q_keywords = [], q_limit = Some (- 1)\<rparr>"

definition twoBudgets :: "fsnode list" where
  "twoBudgets = [FileNode (js ''budget-a.txt'') 1000 None, FileNode (js ''budget-b.txt'') 2000 None]"

text \<open>A search up to 1969-12-31, and a file of 2024.\<close>

definition epochQuery :: tquery where
  "epochQuery = \<lparr>q_from = [], q_to = js ''1969-12-31'', q_keywords = [], q_limit = None\<rparr>"

definition laterFolder :: "fsnode list" where
  "laterFolder = [FileNode (js ''2024-01-05 10.00.00 notes.txt'') 5 None]"

text \<open>A search for \<open>b\<close>, and a file whose content is 501 times the letter.\<close>

definition letterQuery :: tquery where
  "letterQuery = \<lparr>q_from = [], q_to = [], q_keywords = js ''b'', q_limit = None\<rparr>"

definition longFolder :: "fsnode list" where
  "longFolder = [FileNode (js ''n.txt'') 1000 (Some (replicate 501 98))]"

text \<open>
  Requests on the stores: a question on the unfiltered data, the same with a topic, a model
  that answers \<open>o\<close>, and a transcript at a local path.
\<close>

definition whyQuery :: askQuery where
  "whyQuery = \<lparr>a_sessionId = [], a_from = [], a_to = [], a_type = [], a_countries = [], a_topic = [],
               a_style = [], a_question = js ''why'', a_q = []\<rparr>"

definition topicQuery :: askQuery where
  "topicQuery = \<lparr>a_sessionId = [], a_from = [], a_to = [], a_type = [], a_countries = [],
                 a_topic = js ''x'', a_style = [], a_question = js ''why'', a_q = []\<rparr>"

definition noRows :: fetched where
  "noRows = \<lparr>f_rows = [], f_restUrl = [], f_sqlApprox = [], f_filters = []\<rparr>"

definition answersO :: gemini where
  "answersO = (\<lambda>prompt history. Inr [111])"

definition whyReq :: request where
  "whyReq = AskReq whyQuery (Inr noRows) answersO"

definition talkQuery :: trQuery where
  "talkQuery = \<lparr>tq_id = js ''t/a.txt'', tq_question = js ''who'', tq_sessionId = []\<rparr>"

definition blankQuestion :: trQuery where
  "blankQuestion = \<lparr>tq_id = js ''t/a.txt'', tq_question = js '' '', tq_sessionId = []\<rparr>"

definition readsHello :: reader where
  "readsHello = (\<lambda>path. Inr (js ''hello''))"

definition readFails :: reader where
  "readFails = (\<lambda>path. Inl (js ''ENOENT''))"

section \<open>Evaluation\<close>

text \<open>The definitions a concrete input is evaluated with.\<close>

lemmas str_eval = js_def isWhiteSpace_def isDigit_def isWordChar_def lowerUnit_def toLowerCase_def trim_def
  startsWith_def endsWith_def slice0_def sliceLast_def isSep_def ELLIPSIS_def makePreview_def norm_def
  anyKeywordHit_def hasAllowedTranscriptExt_def parseKeywords_def Let_def
lemmas date_eval = toISOString_def civilFromDays_def msPerDay_def pad2_def pad3_def pad4_def pad6_def
  Date_parse_def parseIsoTail_def allDigits_def digitsValue_def MakeDay_def MakeTime_def dayFromYear_def monthStart_def isLeapYear_def
  boundMs_def parseDateInput_def Date_UTC_def nameTimeMatch_def parseNameTimestampMs_def orElseMs_def beforeFrom_def atOrAfterTo_def
lemmas search_eval = MAX_CONTENT_CHECKS_def limitOf_def fromMsOf_def toMsOf_def scan0_def limitReached_def keywordTest_def
  sortByModifiedDesc_def pathJoin_def localNameMs_def localResult_def scanFile_def findTranscriptsLocal_def
  isTranscriptFile_def gdriveNameMs_def gdriveModified_def gdriveResult_def gdriveFile_def
  findTranscriptsGDrive_def isCandidate_def isDriveCandidate_def
lemmas conv_eval = getConversation_def clearConversation_def getTranscriptConversation_def clearTranscriptConversation_def
  MAX_CONVERSATION_HISTORY_def storeTurns_def orDefault_def questionOf_def filtersKeyOf_def ask_def askTranscript_def readTranscript_def
  clearconversation_def cleartranscriptconversation_def serve_def server0_def MAX_TRANSCRIPT_CHARS_def
  whyQuery_def topicQuery_def noRows_def answersO_def whyReq_def talkQuery_def blankQuestion_def readsHello_def readFails_def

section \<open>Strings and keywords: lemmas\<close>

lemma startsWith_prefix: "startsWith s p \<longleftrightarrow> prefix p s"
  unfolding startsWith_def
  by (metis append_take_drop_id prefix_def append_eq_conv_conj)

lemma indexOf_sublist: "0 \<le> indexOf h w \<longleftrightarrow> sublist w h"
  by (induction h) (auto simp: startsWith_prefix sublist_Cons_right Let_def)

lemma lowerUnit_idem: "lowerUnit (lowerUnit c) = lowerUnit c"
  by (simp add: lowerUnit_def)

lemma toLowerCase_idem: "toLowerCase (toLowerCase s) = toLowerCase s"
  by (simp add: toLowerCase_def lowerUnit_idem)

lemma lowerUnit_space: "isWhiteSpace (lowerUnit c) \<longleftrightarrow> isWhiteSpace c"
  by (auto simp: lowerUnit_def isWhiteSpace_def)

lemma in_dropWhile: "x \<in> set s \<Longrightarrow> \<not> P x \<Longrightarrow> x \<in> set (dropWhile P s)"
  by (induction s) auto

lemma in_trim: "x \<in> set s \<Longrightarrow> \<not> isWhiteSpace x \<Longrightarrow> x \<in> set (trim s)"
  by (simp add: trim_def in_dropWhile)

lemma set_trim_subset: "set (trim s) \<subseteq> set s"
  unfolding trim_def by (metis set_rev set_dropWhileD subsetI)

lemma in_collapseWs: "x \<in> set s \<Longrightarrow> \<not> isWhiteSpace x \<Longrightarrow> x \<in> set (collapseWs s)"
  by (induction s rule: collapseWs.induct) (auto simp: in_dropWhile)

lemma splitSep_pieces:
  "list_all (\<lambda>c. \<not> isSep c) cur \<Longrightarrow> piece \<in> set (splitSep cur s) \<Longrightarrow> list_all (\<lambda>c. \<not> isSep c) piece"
  by (induction cur s rule: splitSep.induct) (auto split: if_splits)

lemma parseKeywords_terms:
  assumes "w \<in> set (parseKeywords k)"
  shows "w \<noteq> []" and "list_all (\<lambda>c. \<not> isWhiteSpace c) w" and "toLowerCase w = w"
proof -
  from assms obtain piece where p: "piece \<in> set (splitSep [] k)" and t: "trim piece \<noteq> []"
    and w: "w = toLowerCase (trim piece)"
    by (auto simp: parseKeywords_def)
  from w t show "w \<noteq> []" by (simp add: toLowerCase_def)
  from w show "toLowerCase w = w" by (simp add: toLowerCase_idem)
  have "list_all (\<lambda>c. \<not> isSep c) piece" using splitSep_pieces [of "[]" piece k] p by simp
  then have "list_all (\<lambda>c. \<not> isWhiteSpace c) piece" by (auto simp: list_all_iff isSep_def)
  then have "list_all (\<lambda>c. \<not> isWhiteSpace c) (trim piece)"
    using set_trim_subset [of piece] by (auto simp: list_all_iff)
  then show "list_all (\<lambda>c. \<not> isWhiteSpace c) w"
    by (auto simp: w toLowerCase_def list_all_iff lowerUnit_space)
qed

lemma anyKeywordHit_rule:
  assumes "kws \<noteq> []" and "\<And>w. w \<in> set kws \<Longrightarrow> toLowerCase w = w"
  shows "anyKeywordHit hay kws \<longleftrightarrow> anyTermIn kws hay"
  using assms
  by (auto simp: anyKeywordHit_def anyTermIn_def ciContains_def norm_def indexOf_sublist list_ex_iff Let_def)

lemma sublist_nonspace:
  assumes "sublist w (toLowerCase body)" and "w \<noteq> []" and "list_all (\<lambda>c. \<not> isWhiteSpace c) w"
  shows "\<exists>c \<in> set body. \<not> isWhiteSpace c"
proof -
  from assms(2) obtain x where x: "x \<in> set w" by (cases w) auto
  with assms(3) have nx: "\<not> isWhiteSpace x" by (auto simp: list_all_iff)
  from assms(1) x have "x \<in> set (toLowerCase body)" by (auto simp: sublist_def)
  then obtain c where "c \<in> set body" and "x = lowerUnit c" by (auto simp: toLowerCase_def)
  with nx show ?thesis using lowerUnit_space by auto
qed

lemma makePreview_nonempty:
  assumes "\<exists>c \<in> set body. \<not> isWhiteSpace c"
  shows "makePreview body maxLen \<noteq> []"
proof -
  from assms have "trim (collapseWs body) \<noteq> []"
    using in_trim in_collapseWs by fastforce
  then show ?thesis by (simp add: makePreview_def Let_def ELLIPSIS_def)
qed

section \<open>The scan of a folder: lemmas\<close>


lemma keywordTest_preview:
  "fst (snd (keywordTest kws item content n)) =
     (if kws \<noteq> [] \<and> \<not> anyKeywordHit item kws \<and> n < MAX_CONTENT_CHECKS
      then (case content of None \<Rightarrow> []
            | Some body \<Rightarrow> if anyKeywordHit body kws then makePreview body 500 else [])
      else [])"
  by (auto simp: keywordTest_def Let_def split: option.splits)

lemma scanFile_results:
  assumes "isCandidate fromMs toMs item mtime"
  shows "results (scanFile fromMs toMs kws folderPath item mtime content st) =
           results st @
             (if fst (keywordTest kws item content (checks st))
              then [localResult (pathJoin folderPath item) item (localNameMs item mtime)
                      (fst (snd (keywordTest kws item content (checks st))))]
              else [])"
  using assms by (auto simp: scanFile_def isCandidate_def Let_def split: prod.splits)

lemma scanFile_noncandidate:
  "\<not> isCandidate fromMs toMs item mtime \<Longrightarrow> scanFile fromMs toMs kws folderPath item mtime content st = st"
  by (auto simp: scanFile_def isCandidate_def Let_def)

lemma scanFiles_reached: "limitReached lim st \<Longrightarrow> scanFiles lim fromMs toMs kws fs st = st"
  by (cases fs) auto

lemma scanFiles_append:
  "scanFiles lim fromMs toMs kws (xs @ ys) st = scanFiles lim fromMs toMs kws ys (scanFiles lim fromMs toMs kws xs st)"
  by (induction xs arbitrary: st) (auto simp: scanFiles_reached)

lemma scan_walk:
  "scanFolder lim fromMs toMs kws folderPath depth items st
     = scanFiles lim fromMs toMs kws (walkFolder folderPath depth items) st"
  "scanItems lim fromMs toMs kws folderPath depth items st
     = scanFiles lim fromMs toMs kws (walkItems folderPath depth items) st"
  by (induction lim fromMs toMs kws folderPath depth items st and lim fromMs toMs kws folderPath depth items st
      rule: scanFolder_scanItems.induct)
     (auto simp: scanFiles_append scanFiles_reached)

lemma set_insertByModified: "set (insertByModified x xs) = insert x (set xs)"
  by (induction xs) auto

lemma sorted_insertByModified:
  "sorted_wrt (\<lambda>a b. r_modified b \<le> r_modified a) xs
   \<Longrightarrow> sorted_wrt (\<lambda>a b. r_modified b \<le> r_modified a) (insertByModified x xs)"
  by (induction xs) (auto simp: set_insertByModified)

lemma set_sortByModifiedDesc: "set (sortByModifiedDesc xs) = set xs"
  unfolding sortByModifiedDesc_def by (induction xs) (auto simp: set_insertByModified)



lemma sorted_sortByModifiedDesc:
  "sorted_wrt (\<lambda>a b. r_modified b \<le> r_modified a) (sortByModifiedDesc xs)"
  unfolding sortByModifiedDesc_def by (induction xs) (auto simp: sorted_insertByModified)

lemma sorted_slice0:
  "sorted_wrt P xs \<Longrightarrow> sorted_wrt P (slice0 xs e)"
  by (simp add: slice0_def sorted_wrt_take)

lemma length_slice0: "0 \<le> e \<Longrightarrow> int (length (slice0 xs e)) \<le> e"
  by (simp add: slice0_def)






lemma scanFiles_provenance:
  assumes "r \<in> set (results (scanFiles lim fromMs toMs kws fs st))"
  shows "r \<in> set (results st)
         \<or> (\<exists>(fp, item, mtime, content) \<in> set fs. \<exists>n.
              isCandidate fromMs toMs item mtime
              \<and> fst (keywordTest kws item content n)
              \<and> r = localResult (pathJoin fp item) item (localNameMs item mtime)
                      (fst (snd (keywordTest kws item content n))))"
  using assms
proof (induction fs arbitrary: st)
  case Nil
  then show ?case by simp
next
  case (Cons f fs)
  obtain fp item mtime content where f: "f = (fp, item, mtime, content)" by (cases f) auto
  show ?case
  proof (cases "limitReached lim st")
    case True
    with Cons.prems show ?thesis by (simp add: f)
  next
    case False
    let ?st = "scanFile fromMs toMs kws fp item mtime content st"
    from Cons.prems False have "r \<in> set (results (scanFiles lim fromMs toMs kws fs ?st))"
      by (simp add: f)
    from Cons.IH [OF this] show ?thesis
    proof
      assume r: "r \<in> set (results ?st)"
      show ?thesis
      proof (cases "isCandidate fromMs toMs item mtime")
        case True
        from r show ?thesis
          unfolding scanFile_results [OF True]
          by (auto simp: f True split: if_splits)
      next
        case False
        with r show ?thesis by (simp add: scanFile_noncandidate)
      qed
    next
      assume "\<exists>(fp, item, mtime, content) \<in> set fs. \<exists>n.
              isCandidate fromMs toMs item mtime
              \<and> fst (keywordTest kws item content n)
              \<and> r = localResult (pathJoin fp item) item (localNameMs item mtime)
                      (fst (snd (keywordTest kws item content n)))"
      then show ?thesis by auto
    qed
  qed
qed

lemma scan0_results: "results scan0 = []"
  by (simp add: scan0_def)



lemma gdriveLoop_nonpositive:
  "lim \<le> 0 \<Longrightarrow> results (gdriveLoop lim fromMs toMs kws now readFile fs scan0) = []"
  by (cases fs) (auto simp: limitReached_def scan0_def)

lemma scanFolder_nonpositive:
  "lim \<le> 0 \<Longrightarrow> results (scanFolder lim fromMs toMs kws folder depth items scan0) = []"
  by (auto simp: limitReached_def scan0_def)

lemma slice0_Nil: "slice0 [] e = []"
  by (simp add: slice0_def)

lemma sort_Nil: "sortByModifiedDesc [] = []"
  by (simp add: sortByModifiedDesc_def)

lemma slice0_sorted_length:
  assumes "lim \<le> 0 \<longrightarrow> xs = []"
  shows "int (length (slice0 (sortByModifiedDesc xs) lim)) \<le> max 0 lim
         \<and> sorted_wrt (\<lambda>a b. r_modified b \<le> r_modified a) (slice0 (sortByModifiedDesc xs) lim)"
proof (cases "0 \<le> lim")
  case True
  then show ?thesis
    using length_slice0 [OF True, of "sortByModifiedDesc xs"]
    by (simp add: sorted_slice0 sorted_sortByModifiedDesc)
next
  case False
  with assms show ?thesis by (simp add: slice0_Nil sort_Nil)
qed

section \<open>The loop over the drive listing: lemmas\<close>













section \<open>Previews: lemmas\<close>

lemma collapseWs_id: "list_all (\<lambda>c. \<not> isWhiteSpace c) s \<Longrightarrow> collapseWs s = s"
  by (induction s) auto

lemma dropWhile_id: "list_all (\<lambda>c. \<not> P c) s \<Longrightarrow> dropWhile P s = s"
  by (cases s) auto

lemma trim_id: "list_all (\<lambda>c. \<not> isWhiteSpace c) s \<Longrightarrow> trim s = s"
  by (simp add: trim_def dropWhile_id)

lemma makePreview_clipped:
  assumes "list_all (\<lambda>c. \<not> isWhiteSpace c) s" and "int (length s) > maxLen" and "1 \<le> maxLen"
  shows "makePreview s maxLen = take (nat (maxLen - 1)) s @ ELLIPSIS"
    and "int (length (makePreview s maxLen)) = maxLen + 2"
  using assms by (auto simp: makePreview_def collapseWs_id trim_id slice0_def ELLIPSIS_def Let_def)

lemma preview_rule:
  assumes resp: "findTranscriptsLocal p folder (Some items) = Ok rs" and r: "r \<in> set rs"
    and kws: "kws = parseKeywords (q_keywords p)"
  shows "\<exists>(fp, item, mtime, content) \<in> set (walkFolder folder 0 items).
           isCandidate (fromMsOf p) (toMsOf p) item mtime
           \<and> r_id r = pathJoin fp item \<and> r_name r = item
           \<and> (r_preview r \<noteq> [] \<longleftrightarrow>
                 kws \<noteq> [] \<and> \<not> anyTermIn kws item \<and> (\<exists>body. content = Some body \<and> anyTermIn kws body))
           \<and> (r_preview r \<noteq> [] \<longrightarrow> (\<exists>body. content = Some body \<and> r_preview r = makePreview body 500))"
proof -
  let ?scan = "scanFiles (limitOf p) (fromMsOf p) (toMsOf p) kws"
  from resp have "rs = slice0 (sortByModifiedDesc (results (?scan (walkFolder folder 0 items) scan0))) (limitOf p)"
    by (simp add: findTranscriptsLocal_def Let_def scan_walk(1) kws del: scanFolder.simps walkFolder.simps)
  with r have "r \<in> set (results (?scan (walkFolder folder 0 items) scan0))"
    by (auto simp: slice0_def set_sortByModifiedDesc dest: in_set_takeD split: if_splits)
  from scanFiles_provenance [OF this]
  obtain fp item mtime content n where
    f: "(fp, item, mtime, content) \<in> set (walkFolder folder 0 items)"
    and c: "isCandidate (fromMsOf p) (toMsOf p) item mtime"
    and h: "fst (keywordTest kws item content n)"
    and req: "r = localResult (pathJoin fp item) item (localNameMs item mtime)
                   (fst (snd (keywordTest kws item content n)))"
    by (auto simp: scan0_results)
  have terms: "\<And>w. w \<in> set kws \<Longrightarrow> w \<noteq> [] \<and> list_all (\<lambda>c. \<not> isWhiteSpace c) w \<and> toLowerCase w = w"
    using parseKeywords_terms kws by simp
  have pv: "r_preview r = fst (snd (keywordTest kws item content n))"
    by (simp add: req localResult_def)
  have body_pv: "makePreview body 500 \<noteq> []" if "kws \<noteq> []" "anyKeywordHit body kws" for body
  proof -
    from that obtain w where "w \<in> set kws" "sublist w (toLowerCase body)"
      by (auto simp: anyKeywordHit_def norm_def indexOf_sublist list_ex_iff Let_def)
    with terms sublist_nonspace [of w body] have "\<exists>c \<in> set body. \<not> isWhiteSpace c" by blast
    then show ?thesis by (rule makePreview_nonempty)
  qed
  have rule: "kws \<noteq> [] \<Longrightarrow> anyKeywordHit hay kws \<longleftrightarrow> anyTermIn kws hay" for hay
    using anyKeywordHit_rule [of kws hay] terms by blast
  have iff: "r_preview r \<noteq> [] \<longleftrightarrow>
                 kws \<noteq> [] \<and> \<not> anyTermIn kws item \<and> (\<exists>body. content = Some body \<and> anyTermIn kws body)"
    using h body_pv rule
    by (cases "kws = []")
       (auto simp: pv keywordTest_def Let_def split: option.splits if_splits)
  have shape: "r_preview r \<noteq> [] \<longrightarrow> (\<exists>body. content = Some body \<and> r_preview r = makePreview body 500)"
    by (auto simp: pv keywordTest_def Let_def split: option.splits if_splits)
  from f c iff shape show ?thesis
    by (intro bexI [of _ "(fp, item, mtime, content)"]) (auto simp: req localResult_def)
qed

lemma makePreview_length:
  "1 \<le> maxLen \<Longrightarrow> int (length (makePreview s maxLen)) \<le> maxLen + 2"
  by (auto simp: makePreview_def slice0_def ELLIPSIS_def Let_def)

lemma sublist_single: "x \<in> set ys \<Longrightarrow> sublist [x] ys"
  by (metis append_Cons append_Nil split_list sublist_def)

section \<open>Dates: lemmas\<close>

lemma parseDateInput_blank: "trim s = [] \<Longrightarrow> parseDateInput s b = None"
  by (simp add: parseDateInput_def)

lemma parseDateInput_other_length: "length (trim s) \<noteq> 10 \<Longrightarrow> parseDateInput s b = None"
  by (simp add: parseDateInput_def Let_def)

lemma no_bound_no_constraint:
  "boundMs None = None" "\<not> beforeFrom None t" "\<not> atOrAfterTo None t"
  by (simp_all add: boundMs_def beforeFrom_def atOrAfterTo_def)

lemma bound_applied_unless_zero:
  "e \<noteq> 0 \<Longrightarrow> atOrAfterTo (Some e) (Some t) \<longleftrightarrow> e \<le> t"
  "f \<noteq> 0 \<Longrightarrow> beforeFrom (Some f) (Some t) \<longleftrightarrow> t < f"
  by (simp_all add: atOrAfterTo_def beforeFrom_def)

lemma Date_UTC_next_day: "Date_UTC y m (d + 1) 0 0 0 = Date_UTC y m d 0 0 0 + msPerDay"
  by (simp add: Date_UTC_def MakeDay_def Let_def algebra_simps)

lemma end_date_inclusive_example:
  "boundMs (parseDateInput (js ''2024-01-05'') True) = Some 1704499200000
   \<and> Date_UTC 2024 0 5 23 59 59 = 1704499199000
   \<and> \<not> atOrAfterTo (boundMs (parseDateInput (js ''2024-01-05'') True)) (Some (Date_UTC 2024 0 5 23 59 59))
   \<and> atOrAfterTo (boundMs (parseDateInput (js ''2024-01-05'') True)) (Some (Date_UTC 2024 0 6 0 0 0))"
  by (simp add: str_eval date_eval cong: let_weak_cong prod.case_cong_weak)

lemma nameTimeMatch_take:
  "nameTimeMatch name = Some g \<Longrightarrow> 19 \<le> length name \<and> nameTimeMatch (take 19 name) = Some g"
  by (auto simp: nameTimeMatch_def drop_take min_def split: if_splits)

section \<open>The conversation stores: lemmas\<close>

lemma storeTurns_length:
  "length (storeTurns h p a) = min (length h + 2) (2 * MAX_CONVERSATION_HISTORY)"
  by (simp add: storeTurns_def sliceLast_def Let_def MAX_CONVERSATION_HISTORY_def)

lemma historyOk_Nil: "historyOk []"
  by (simp add: historyOk_def)

lemma historyOk_storeTurns: "historyOk h \<Longrightarrow> historyOk (storeTurns h p a)"
  by (auto simp: historyOk_def storeTurns_length MAX_CONVERSATION_HISTORY_def min_def)

lemma storesOk_ask: "storesOk sv \<Longrightarrow> storesOk (fst (ask sv q fr gem))"
  unfolding storesOk_def ask_def getConversation_def Let_def
  by (auto split: option.splits sum.splits prod.splits if_splits simp: historyOk_Nil historyOk_storeTurns)

lemma storesOk_askTranscript: "storesOk sv \<Longrightarrow> storesOk (fst (askTranscript sv p gd fsr gem))"
  unfolding storesOk_def askTranscript_def getTranscriptConversation_def Let_def
  by (auto split: option.splits sum.splits prod.splits if_splits simp: historyOk_Nil historyOk_storeTurns)

lemma storesOk_handle: "storesOk sv \<Longrightarrow> storesOk (handle sv req)"
  by (cases req) (auto simp: storesOk_ask storesOk_askTranscript,
      auto simp: storesOk_def clearconversation_def cleartranscriptconversation_def clearConversation_def clearTranscriptConversation_def split: if_splits)

lemma storesOk_foldl: "storesOk sv \<Longrightarrow> storesOk (foldl handle sv reqs)"
  by (induction reqs arbitrary: sv) (simp_all add: storesOk_handle)

lemma storesOk_serve: "storesOk (serve reqs)"
  unfolding serve_def by (rule storesOk_foldl) (simp add: storesOk_def server0_def)


lemma askTranscript_returns:
  assumes "trim (tq_id p) \<noteq> []" and "trim (tq_question p) \<noteq> []"
    and "readTranscript gd fsr (trim (tq_id p)) = Inr raw" and "trim raw \<noteq> []"
  shows "\<exists>sv' r. askTranscript sv p gd fsr (\<lambda>prompt history. Inr a) = (sv', Ok r)"
  using assms by (simp add: askTranscript_def Let_def split: prod.splits)

section \<open>The keyword rule\<close>




section \<open>Length and order of the results\<close>

text \<open>
  C2, as the code has it. The list either search returns has at most \<open>min(limit, 50)\<close>
  entries when that number is not negative and none otherwise, \<open>limit\<close> being 10 when it is
  not supplied, and its \<open>modified\<close> fields descend in the order of the code units.
\<close>

theorem search_length_and_order:
  assumes "findTranscriptsLocal p folder root = Ok rs
           \<or> findTranscriptsGDrive p now readFile listing = Ok rs"
  shows "int (length rs) \<le> max 0 (min (case q_limit p of None \<Rightarrow> 10 | Some n \<Rightarrow> n) 50)
         \<and> sorted_wrt (\<lambda>a b. r_modified b \<le> r_modified a) rs"
  using assms
proof
  assume "findTranscriptsLocal p folder root = Ok rs"
  then obtain items where
    rs: "rs = slice0 (sortByModifiedDesc (results (scanFolder (limitOf p) (fromMsOf p) (toMsOf p)
                (parseKeywords (q_keywords p)) folder 0 items scan0))) (limitOf p)"
    by (auto simp: findTranscriptsLocal_def Let_def split: option.splits)
  show ?thesis
    unfolding rs limitOf_def [symmetric]
    by (rule slice0_sorted_length) (simp add: scanFolder_nonpositive del: scanFolder.simps)
next
  assume "findTranscriptsGDrive p now readFile listing = Ok rs"
  then obtain allFiles where
    rs: "rs = slice0 (sortByModifiedDesc (results (gdriveLoop (limitOf p) (fromMsOf p) (toMsOf p)
                (parseKeywords (q_keywords p)) now readFile (filter isTranscriptFile allFiles) scan0))) (limitOf p)"
    by (auto simp: findTranscriptsGDrive_def Let_def split: sum.splits)
  show ?thesis
    unfolding rs limitOf_def [symmetric]
    by (rule slice0_sorted_length) (simp add: gdriveLoop_nonpositive)
qed

text \<open>
  Two files of a folder, pushed in the order of the folder and returned latest first, and the
  one file of a drive.
\<close>

theorem search_length_and_order_witness:
  "(\<exists>rs. findTranscriptsLocal plainQuery (js ''t'') (Some budgetFolder) = Ok rs
        \<and> map r_name rs = [js ''2024-02-01 09.00.00 other.txt'', js ''2024-01-05 10.00.00 notes.txt'']
        \<and> int (length rs) \<le> max 0 (min (case q_limit plainQuery of None \<Rightarrow> 10 | Some n \<Rightarrow> n) 50)
        \<and> sorted_wrt (\<lambda>a b. r_modified b \<le> r_modified a) rs)
   \<and> (\<exists>rs. findTranscriptsGDrive plainQuery 0 driveRead (Inr [driveNotes]) = Ok rs
        \<and> map r_name rs = [js ''notes.txt'']
        \<and> int (length rs) \<le> max 0 (min (case q_limit plainQuery of None \<Rightarrow> 10 | Some n \<Rightarrow> n) 50)
        \<and> sorted_wrt (\<lambda>a b. r_modified b \<le> r_modified a) rs)"
proof -
  have e: "findTranscriptsLocal plainQuery (js ''t'') (Some budgetFolder)
             = Ok [localResult (js ''t/2024-02-01 09.00.00 other.txt'') (js ''2024-02-01 09.00.00 other.txt'') 1706778000000 [],
                   localResult (js ''t/2024-01-05 10.00.00 notes.txt'') (js ''2024-01-05 10.00.00 notes.txt'') 1704448800000 []]"
    by (simp add: str_eval date_eval search_eval plainQuery_def budgetFolder_def
             cong: let_weak_cong prod.case_cong_weak)
  have g: "findTranscriptsGDrive plainQuery 0 driveRead (Inr [driveNotes]) = Ok [gdriveResult 0 driveNotes []]"
    by (simp add: str_eval date_eval search_eval plainQuery_def driveNotes_def driveRead_def
             cong: let_weak_cong prod.case_cong_weak)
  from search_length_and_order [OF disjI1 [OF e]] e
  have l: "\<exists>rs. findTranscriptsLocal plainQuery (js ''t'') (Some budgetFolder) = Ok rs
        \<and> map r_name rs = [js ''2024-02-01 09.00.00 other.txt'', js ''2024-01-05 10.00.00 notes.txt'']
        \<and> int (length rs) \<le> max 0 (min (case q_limit plainQuery of None \<Rightarrow> 10 | Some n \<Rightarrow> n) 50)
        \<and> sorted_wrt (\<lambda>a b. r_modified b \<le> r_modified a) rs"
    by (simp add: localResult_def)
  from search_length_and_order [OF disjI2 [OF g]] g
  have d: "\<exists>rs. findTranscriptsGDrive plainQuery 0 driveRead (Inr [driveNotes]) = Ok rs
        \<and> map r_name rs = [js ''notes.txt'']
        \<and> int (length rs) \<le> max 0 (min (case q_limit plainQuery of None \<Rightarrow> 10 | Some n \<Rightarrow> n) 50)
        \<and> sorted_wrt (\<lambda>a b. r_modified b \<le> r_modified a) rs"
    by (simp add: gdriveResult_def driveNotes_def)
  from l d show ?thesis by blast
qed

text \<open>C2 as stated fails for a negative limit: the list is empty, and \<open>0 > min(-1, 50)\<close>.\<close>

theorem search_length_counterexample:
  "findTranscriptsLocal negativeQuery (js ''t'') (Some twoBudgets) = Ok []
   \<and> \<not> int (length ([] :: tresult list)) \<le> min (case q_limit negativeQuery of None \<Rightarrow> 10 | Some n \<Rightarrow> n) 50"
  by (simp add: str_eval date_eval search_eval negativeQuery_def twoBudgets_def
           cong: let_weak_cong prod.case_cong_weak)

section \<open>The upper bound of the date range\<close>

text \<open>
  C3 at the input \<open>to = 1969-12-31\<close>. The bound advanced by one day is the time value 0,
  which the guard \<open>toMs && nameMs >= toMs\<close> reads as no bound: a file of 2024 passes the
  filter and is returned.
\<close>

theorem to_bound_at_epoch_not_applied:
  "parseDateInput (q_to epochQuery) True = Some (js ''1970-01-01T00:00:00.000Z'')
   \<and> toMsOf epochQuery = Some 0
   \<and> localNameMs (js ''2024-01-05 10.00.00 notes.txt'') 5 = 1704448800000
   \<and> \<not> atOrAfterTo (toMsOf epochQuery) (Some 1704448800000)
   \<and> findTranscriptsLocal epochQuery (js ''t'') (Some laterFolder)
       = Ok [localResult (js ''t/2024-01-05 10.00.00 notes.txt'') (js ''2024-01-05 10.00.00 notes.txt'')
               1704448800000 []]"
  by (simp add: str_eval date_eval search_eval epochQuery_def laterFolder_def
           cong: let_weak_cong prod.case_cong_weak)

section \<open>The invariant of the histories\<close>

text \<open>
  C4. After any sequence of requests on the stores (\<open>ask\<close>, \<open>asktranscript\<close> and the two
  clearing actions, whatever the data store, the document source and the model answer),
  every history of either store has an even length of at most \<open>2 * 20\<close>; what a handler
  stores is an end of the old history followed by the new pair of turns, so trimming removes
  from the front.
\<close>

theorem history_even_and_bounded:
  "(\<forall>sid c. conversations (serve reqs) sid = Some c \<longrightarrow>
        even (length (c_history c)) \<and> length (c_history c) \<le> 2 * 20)
   \<and> (\<forall>sid c. transcriptConversations (serve reqs) sid = Some c \<longrightarrow>
        even (length (tc_history c)) \<and> length (tc_history c) \<le> 2 * 20)
   \<and> suffix (storeTurns h prompt answer)
         (h @ [\<lparr>t_role = User, t_text = prompt\<rparr>, \<lparr>t_role = Model, t_text = answer\<rparr>])"
  using storesOk_serve [of reqs]
  by (simp add: storesOk_def historyOk_def MAX_CONVERSATION_HISTORY_def storeTurns_def sliceLast_def
        suffix_drop Let_def)

text \<open>Twenty-one questions on one session: the history holds the last forty turns.\<close>

theorem history_even_and_bounded_witness:
  "\<exists>c. conversations (serve [whyReq, whyReq, whyReq, whyReq, whyReq, whyReq, whyReq, whyReq, whyReq, whyReq,
          whyReq, whyReq, whyReq, whyReq, whyReq, whyReq, whyReq, whyReq, whyReq, whyReq, whyReq])
          (js ''default'') = Some c
        \<and> length (c_history c) = 40 \<and> even (length (c_history c)) \<and> length (c_history c) \<le> 2 * 20"
proof -
  let ?reqs = "[whyReq, whyReq, whyReq, whyReq, whyReq, whyReq, whyReq, whyReq, whyReq, whyReq,
          whyReq, whyReq, whyReq, whyReq, whyReq, whyReq, whyReq, whyReq, whyReq, whyReq, whyReq]"
  have "\<exists>c. conversations (serve ?reqs) (js ''default'') = Some c \<and> length (c_history c) = 40"
    by (simp add: conv_eval js_def sliceLast_def Let_def cong: let_weak_cong prod.case_cong_weak)
  then obtain c where c: "conversations (serve ?reqs) (js ''default'') = Some c" "length (c_history c) = 40"
    by blast
  with history_even_and_bounded [of ?reqs] show ?thesis by blast
qed

section \<open>Context invalidation of \<open>ask\<close>\<close>



section \<open>The length of a preview\<close>

text \<open>
  C6 at a file whose content is 501 letters and holds the keyword: the preview is the first
  499 code units of the content and the truncation mark, 502 code units in all.
\<close>

theorem preview_exceeds_500:
  "findTranscriptsLocal letterQuery (js ''t'') (Some longFolder)
     = Ok [localResult (js ''t/n.txt'') (js ''n.txt'') 1000 (replicate 499 98 @ ELLIPSIS)]
   \<and> length (r_preview (localResult (js ''t/n.txt'') (js ''n.txt'') 1000 (replicate 499 98 @ ELLIPSIS))) = 502"
proof -
  have ws: "list_all (\<lambda>c. \<not> isWhiteSpace c) (replicate 501 98)"
    by (simp add: list_all_iff isWhiteSpace_def)
  have mp: "makePreview (replicate 501 98) 500 = replicate 499 98 @ ELLIPSIS"
    using makePreview_clipped(1) [OF ws, of 500] by simp
  have "sublist [98] (toLowerCase (replicate 501 98))"
    by (rule sublist_single) (simp add: toLowerCase_def lowerUnit_def)
  then have hit: "anyKeywordHit (replicate 501 98) [[98]]"
    by (simp add: anyKeywordHit_def norm_def indexOf_sublist)
  have miss: "\<not> anyKeywordHit [110, 46, 116, 120, 116] [[98]]"
    by (simp add: str_eval)
  have kt: "keywordTest [[98]] [110, 46, 116, 120, 116] (Some (replicate 501 98)) 0
              = (True, replicate 499 98 @ ELLIPSIS, 1)"
    by (simp add: keywordTest_def hit miss mp MAX_CONTENT_CHECKS_def)
  have kws: "parseKeywords (q_keywords letterQuery) = [[98]]"
    by (simp add: str_eval letterQuery_def)
  have "findTranscriptsLocal letterQuery (js ''t'') (Some longFolder)
     = Ok [localResult (js ''t/n.txt'') (js ''n.txt'') 1000 (replicate 499 98 @ ELLIPSIS)]"
    unfolding findTranscriptsLocal_def kws
    by (simp add: kt js_def isWhiteSpace_def isDigit_def lowerUnit_def toLowerCase_def trim_def
          endsWith_def slice0_def hasAllowedTranscriptExt_def Let_def date_eval
          limitOf_def fromMsOf_def toMsOf_def scan0_def limitReached_def
          sortByModifiedDesc_def pathJoin_def localNameMs_def localResult_def scanFile_def
          letterQuery_def longFolder_def
          cong: let_weak_cong prod.case_cong_weak)
  then show ?thesis by (simp add: localResult_def ELLIPSIS_def)
qed

section \<open>Clearing a session\<close>

text \<open>
  C7. Clearing removes the entry of the session from its store, and \<open>get\<close> on the cleared
  store creates, stores and returns the state with an empty history and no context, the same
  state \<open>get\<close> returns for any session on a store that holds nothing; for both stores, and
  for the two clearing actions on the entry they address.
\<close>

theorem clear_then_get_is_fresh:
  "clearConversation convs sid sid = None
   \<and> getConversation (clearConversation convs sid) sid
       = ((clearConversation convs sid)(sid \<mapsto> \<lparr>c_history = [], c_context = None\<rparr>),
          \<lparr>c_history = [], c_context = None\<rparr>)
   \<and> snd (getConversation (clearConversation convs sid) sid) = snd (getConversation Map.empty sid')
   \<and> clearTranscriptConversation tconvs sid sid = None
   \<and> getTranscriptConversation (clearTranscriptConversation tconvs sid) sid
       = ((clearTranscriptConversation tconvs sid)(sid \<mapsto> \<lparr>tc_history = [], tc_transcriptId = None\<rparr>),
          \<lparr>tc_history = [], tc_transcriptId = None\<rparr>)
   \<and> snd (getTranscriptConversation (clearTranscriptConversation tconvs sid) sid)
       = snd (getTranscriptConversation Map.empty sid')
   \<and> conversations (clearconversation sv sid) (orDefault sid (js ''default'')) = None
   \<and> transcriptConversations (cleartranscriptconversation sv sid) (orDefault sid (js ''tr_default'')) = None"
  by (simp add: clearConversation_def getConversation_def clearTranscriptConversation_def
      getTranscriptConversation_def clearconversation_def cleartranscriptconversation_def)

section \<open>A transcript that cannot be read\<close>

text \<open>
  C8, as the code has it. An \<open>asktranscript\<close> call with an id and a question that are not
  blank, whose transcript cannot be read, returns the failure
  \<open>Failed to read transcript: \<close> followed by the message of the error, with no answer, and
  appends nothing to any history.
\<close>

theorem unreadable_transcript_fails:
  assumes "trim (tq_id p) \<noteq> []" and "trim (tq_question p) \<noteq> []"
    and "readTranscript gd fsr (trim (tq_id p)) = Inl msg"
  shows "snd (askTranscript sv p gd fsr gem) = Fail (js ''Failed to read transcript: '' @ msg)
         \<and> (\<forall>sid. historyOf (transcriptConversations (fst (askTranscript sv p gd fsr gem))) sid
                  = historyOf (transcriptConversations sv) sid)"
  using assms
  by (auto simp: askTranscript_def Let_def getTranscriptConversation_def historyOf_def split: option.splits if_splits)

text \<open>A call on a path that cannot be read.\<close>

theorem unreadable_transcript_fails_witness:
  "trim (tq_id talkQuery) \<noteq> [] \<and> trim (tq_question talkQuery) \<noteq> []
   \<and> readTranscript readFails readFails (trim (tq_id talkQuery)) = Inl (js ''ENOENT'')
   \<and> snd (askTranscript server0 talkQuery readFails readFails answersO)
       = Fail (js ''Failed to read transcript: '' @ js ''ENOENT'')"
proof -
  have i: "trim (tq_id talkQuery) \<noteq> []" and q: "trim (tq_question talkQuery) \<noteq> []"
    and r: "readTranscript readFails readFails (trim (tq_id talkQuery)) = Inl (js ''ENOENT'')"
    by (simp_all add: conv_eval str_eval)
  from unreadable_transcript_fails [OF i q r, of server0 answersO] i q r show ?thesis by simp
qed

text \<open>
  C8 as stated fails for a blank question: the call returns \<open>Missing question\<close> before it
  reads the transcript.
\<close>

theorem unreadable_transcript_counterexample:
  "readTranscript readFails readFails (trim (tq_id blankQuestion)) = Inl (js ''ENOENT'')
   \<and> snd (askTranscript server0 blankQuestion readFails readFails answersO) = Fail (js ''Missing question'')
   \<and> js ''Missing question'' \<noteq> js ''Failed to read transcript: '' @ js ''ENOENT''"
  by (simp add: conv_eval str_eval cong: let_weak_cong prod.case_cong_weak)

text \<open>
  C9. Every \<open>asktranscript\<close> call consults the document source, a follow-up on the stored
  transcript included: when the read fails or the content is blank, the call returns a
  failure and no history changes, and the store is unchanged when the session exists. A
  follow-up whose read succeeds sends the follow-up text around the question, which holds
  nothing of the transcript.
\<close>

theorem reread_failure_appends_nothing:
  "(readTranscript gd fsr (trim (tq_id p)) = Inl msg
      \<or> (\<exists>raw. readTranscript gd fsr (trim (tq_id p)) = Inr raw \<and> trim raw = [])
    \<longrightarrow> (\<exists>e. snd (askTranscript sv p gd fsr gem) = Fail e)
        \<and> (\<forall>sid. historyOf (transcriptConversations (fst (askTranscript sv p gd fsr gem))) sid
                 = historyOf (transcriptConversations sv) sid)
        \<and> (transcriptConversations sv (trim (orDefault (tq_sessionId p) (js ''tr_default''))) \<noteq> None
             \<longrightarrow> fst (askTranscript sv p gd fsr gem) = sv))
   \<and> (\<forall>c raw answer.
         transcriptConversations sv (trim (orDefault (tq_sessionId p) (js ''tr_default''))) = Some c
         \<and> tc_transcriptId c = Some (trim (tq_id p)) \<and> tc_history c \<noteq> []
         \<and> trim (tq_id p) \<noteq> [] \<and> trim (tq_question p) \<noteq> []
         \<and> readTranscript gd fsr (trim (tq_id p)) = Inr raw \<and> trim raw \<noteq> []
         \<and> gem (followUpTranscriptPrompt (trim (tq_question p))) (tc_history c) = Inr answer
         \<longrightarrow> historyOf (transcriptConversations (fst (askTranscript sv p gd fsr gem)))
               (trim (orDefault (tq_sessionId p) (js ''tr_default'')))
             = storeTurns (tc_history c) (followUpTranscriptPrompt (trim (tq_question p))) answer)"
  by (auto simp: askTranscript_def Let_def getTranscriptConversation_def historyOf_def
           split: option.splits if_splits)

text \<open>
  A first question on a transcript, then a follow-up when the file can no longer be read, and
  the follow-up when it can.
\<close>

theorem reread_failure_appends_nothing_witness:
  "\<exists>sv1 r1 h.
      askTranscript server0 talkQuery readsHello readsHello answersO = (sv1, Ok r1)
      \<and> transcriptConversations sv1 (js ''tr_default'')
          = Some \<lparr>tc_history = h, tc_transcriptId = Some (js ''t/a.txt'')\<rparr>
      \<and> length h = 2
      \<and> readTranscript readFails readFails (trim (tq_id talkQuery)) = Inl (js ''ENOENT'')
      \<and> (\<exists>e. snd (askTranscript sv1 talkQuery readFails readFails answersO) = Fail e)
      \<and> fst (askTranscript sv1 talkQuery readFails readFails answersO) = sv1
      \<and> historyOf (transcriptConversations (fst (askTranscript sv1 talkQuery readsHello readsHello answersO)))
           (js ''tr_default'')
          = storeTurns h (followUpTranscriptPrompt (js ''who'')) [111]"
proof -
  have "\<exists>sv1 r1. askTranscript server0 talkQuery readsHello readsHello (\<lambda>prompt history. Inr [111]) = (sv1, Ok r1)"
    by (rule askTranscript_returns [where raw = "js ''hello''"]) (simp_all add: conv_eval str_eval)
  then obtain sv1 r1 where a1: "askTranscript server0 talkQuery readsHello readsHello answersO = (sv1, Ok r1)"
    by (auto simp: answersO_def)
  then obtain h where c1: "transcriptConversations sv1 (js ''tr_default'')
                       = Some \<lparr>tc_history = h, tc_transcriptId = Some (js ''t/a.txt'')\<rparr>" and h: "length h = 2"
    by (auto simp: conv_eval str_eval cong: let_weak_cong prod.case_cong_weak)
  have r: "readTranscript readFails readFails (trim (tq_id talkQuery)) = Inl (js ''ENOENT'')"
    and ok: "readTranscript readsHello readsHello (trim (tq_id talkQuery)) = Inr (js ''hello'')"
    and sid: "trim (orDefault (tq_sessionId talkQuery) (js ''tr_default'')) = js ''tr_default''"
    and i: "trim (tq_id talkQuery) = js ''t/a.txt''" and q: "trim (tq_question talkQuery) = js ''who''"
    and nb: "trim (js ''hello'') \<noteq> []"
    by (simp_all add: conv_eval str_eval)
  from reread_failure_appends_nothing [of readFails readFails talkQuery "js ''ENOENT''" sv1 answersO] c1 sid r
  have f: "\<exists>e. snd (askTranscript sv1 talkQuery readFails readFails answersO) = Fail e"
    and u: "fst (askTranscript sv1 talkQuery readFails readFails answersO) = sv1"
    by auto
  have hne: "h \<noteq> []" using h by auto
  have g: "answersO (followUpTranscriptPrompt (js ''who'')) h = Inr [111]"
    by (simp add: answersO_def)
  from reread_failure_appends_nothing [of readsHello readsHello talkQuery _ sv1 answersO]
  have "historyOf (transcriptConversations (fst (askTranscript sv1 talkQuery readsHello readsHello answersO)))
           (js ''tr_default'') = storeTurns h (followUpTranscriptPrompt (js ''who'')) [111]"
    using c1 hne ok nb g unfolding sid i q
    by (auto simp: js_def)
  with a1 c1 h r f u show ?thesis by blast
qed

section \<open>The time stamp of a file name\<close>

text \<open>
  C10. A time stamp is read from a name only at its start: when one is read, the name has at
  least 19 code units and the first 19 alone give the same time. When the pattern does not
  match at the start, whatever the name holds later, the result is \<open>null\<close>, the time of a
  local file is its \<open>mtime\<close>, which its \<open>modified\<close> field renders, and the time of a drive
  file that reports a modification time is that time, which is its \<open>modified\<close> field.
\<close>

theorem name_timestamp_anchored:
  "(parseNameTimestampMs name = Some ms \<longrightarrow>
      19 \<le> length name \<and> parseNameTimestampMs (take 19 name) = Some ms)
   \<and> (nameTimeMatch name = None \<longrightarrow>
        parseNameTimestampMs name = None
        \<and> localNameMs name mtime = mtime
        \<and> r_modified (localResult itemPath name (localNameMs name mtime) preview) = toISOString mtime
        \<and> (g_name f = name \<and> g_modifiedTime f \<noteq> [] \<longrightarrow>
              gdriveNameMs now f = Date_parse (g_modifiedTime f)
              \<and> gdriveModified now f = g_modifiedTime f))"
proof -
  have "19 \<le> length name \<and> parseNameTimestampMs (take 19 name) = Some ms"
    if "parseNameTimestampMs name = Some ms"
  proof -
    from that obtain g where g: "nameTimeMatch name = Some g"
      by (auto simp: parseNameTimestampMs_def split: option.splits)
    from nameTimeMatch_take [OF g] that g show ?thesis
      by (simp add: parseNameTimestampMs_def)
  qed
  then show ?thesis
    by (auto simp: parseNameTimestampMs_def localNameMs_def localResult_def gdriveNameMs_def
          gdriveModified_def orElseMs_def)
qed

text \<open>
  A name that holds a time stamp after the word \<open>notes\<close> yields \<open>null\<close> and the \<open>mtime\<close>; a
  name that starts with the stamp yields its time.
\<close>

theorem name_timestamp_anchored_witness:
  "nameTimeMatch (js ''notes 2024-01-05 10.00.00.txt'') = None
   \<and> nameTimeMatch (drop 6 (js ''notes 2024-01-05 10.00.00.txt'')) \<noteq> None
   \<and> parseNameTimestampMs (js ''notes 2024-01-05 10.00.00.txt'') = None
   \<and> localNameMs (js ''notes 2024-01-05 10.00.00.txt'') 5 = 5
   \<and> gdriveNameMs 0 (driveNotes\<lparr>g_name := js ''notes 2024-01-05 10.00.00.txt''\<rparr>)
       = Date_parse (js ''2024-01-05T10:00:00.000Z'')
   \<and> parseNameTimestampMs (js ''2024-01-05 10.00.00 notes.txt'') = Some 1704448800000
   \<and> parseNameTimestampMs (take 19 (js ''2024-01-05 10.00.00 notes.txt'')) = Some 1704448800000"
proof -
  have n: "nameTimeMatch (js ''notes 2024-01-05 10.00.00.txt'') = None"
    and l: "nameTimeMatch (drop 6 (js ''notes 2024-01-05 10.00.00.txt'')) \<noteq> None"
    and p: "parseNameTimestampMs (js ''2024-01-05 10.00.00 notes.txt'') = Some 1704448800000"
    by (simp_all add: str_eval date_eval cong: let_weak_cong prod.case_cong_weak)
  have f: "g_name (driveNotes\<lparr>g_name := js ''notes 2024-01-05 10.00.00.txt''\<rparr>) = js ''notes 2024-01-05 10.00.00.txt''"
    and m: "g_modifiedTime (driveNotes\<lparr>g_name := js ''notes 2024-01-05 10.00.00.txt''\<rparr>) = js ''2024-01-05T10:00:00.000Z''"
    and ne: "js ''2024-01-05T10:00:00.000Z'' \<noteq> []"
    by (simp_all add: driveNotes_def js_def)
  from name_timestamp_anchored
         [of "js ''notes 2024-01-05 10.00.00.txt''" _ 5 _ _ "driveNotes\<lparr>g_name := js ''notes 2024-01-05 10.00.00.txt''\<rparr>" 0]
       n f m ne
  have "parseNameTimestampMs (js ''notes 2024-01-05 10.00.00.txt'') = None"
    and "localNameMs (js ''notes 2024-01-05 10.00.00.txt'') 5 = 5"
    and "gdriveNameMs 0 (driveNotes\<lparr>g_name := js ''notes 2024-01-05 10.00.00.txt''\<rparr>)
           = Date_parse (js ''2024-01-05T10:00:00.000Z'')"
    by auto
  moreover from name_timestamp_anchored [of "js ''2024-01-05 10.00.00 notes.txt''" 1704448800000] p
  have "parseNameTimestampMs (take 19 (js ''2024-01-05 10.00.00 notes.txt'')) = Some 1704448800000"
    by blast
  ultimately show ?thesis using n l p by blast
qed

end
